theory Spec2Isabelle
  imports Main "HOL-Library.AList"
begin

chapter \<open>The model\<close>

section \<open>JavaScript strings and numbers\<close>

text \<open>
  JavaScript strings are modelled as \<^typ>\<open>string\<close>. Addresses, selectors and hex
  payloads are ASCII, where one character is one UTF-16 code unit, so \<open>length\<close>,
  \<open>take\<close> and \<open>drop\<close> are \<^verbatim>\<open>.length\<close> and \<^verbatim>\<open>.slice\<close>. The only non-ASCII
  character the code writes is the arrow of the \<open>CallFailed\<close> message; it is kept as
  its three UTF-8 bytes (\<open>arrow\<close> below).
\<close>

definition toLowerCaseChar :: "char \<Rightarrow> char" where
  "toLowerCaseChar c =
     (case map_of (zip ''ABCDEFGHIJKLMNOPQRSTUVWXYZ'' ''abcdefghijklmnopqrstuvwxyz'') c of
        Some l \<Rightarrow> l | None \<Rightarrow> c)"

definition toLowerCase :: "string \<Rightarrow> string" where
  "toLowerCase s = map toLowerCaseChar s"

definition padStart :: "nat \<Rightarrow> char \<Rightarrow> string \<Rightarrow> string" where
  "padStart n c s = replicate (n - length s) c @ s"

definition digitChar :: "nat \<Rightarrow> char" where
  "digitChar d = ''0123456789abcdef'' ! (d mod 16)"

text \<open>\<^verbatim>\<open>n.toString(radix)\<close> of a non-negative integer, for the radices 10 and 16.\<close>

function natToString :: "nat \<Rightarrow> nat \<Rightarrow> string" where
  "natToString radix n =
     (if n < radix \<or> radix < 2 then [digitChar n]
      else natToString radix (n div radix) @ [digitChar (n mod radix)])"
  by pat_completeness auto
termination
  by (relation "measure snd") auto

text \<open>\<^verbatim>\<open>b.toString(radix)\<close> of a bigint: a negative one prints its sign.\<close>

definition bigintToString :: "nat \<Rightarrow> int \<Rightarrow> string" where
  "bigintToString radix i =
     (if i < 0 then CHR ''-'' # natToString radix (nat (- i)) else natToString radix (nat i))"

function bitLength :: "nat \<Rightarrow> nat" where
  "bitLength n = (if n = 0 then 0 else Suc (bitLength (n div 2)))"
  by pat_completeness auto
termination
  by (relation "measure id") auto

text \<open>
  A \<open>bigint\<close> is an \<^typ>\<open>int\<close>. A \<open>number\<close> is a double; the numbers of this code
  are integer-valued, and such a number is modelled by its value, an \<^typ>\<open>int\<close> or a
  \<^typ>\<open>nat\<close>. A number that counts the entries of an array (a number of calls, an index)
  is far below \<open>2^53\<close>, where the arithmetic of doubles is exact. Where the code
  converts an arbitrary \<open>uint256\<close> to a number, or adds to a number that comes from
  outside, the rounding is written out: \<^verbatim>\<open>Number(code)\<close> is the nearest double, ties
  to even. Every \<open>uint256\<close> is below the doubles' overflow and the result is again an
  integer, so it is kept as a \<^typ>\<open>nat\<close>.
\<close>

definition toNumber :: "nat \<Rightarrow> nat" where
  "toNumber n =
     (if bitLength n \<le> 53 then n
      else let e = bitLength n - 53; q = n div 2 ^ e; r = n mod 2 ^ e; h = 2 ^ (e - 1)
           in if h < r \<or> (r = h \<and> odd q) then (q + 1) * 2 ^ e else q * 2 ^ e)"

text \<open>
  \<^verbatim>\<open>x + y\<close> on two integer-valued numbers: the double nearest to the sum (rounding is
  symmetric in the sign). Up to \<open>2^53\<close> in absolute value the sum is exact; beyond, odd
  sums are not doubles, and \<^verbatim>\<open>2**53 + 1\<close> is \<^verbatim>\<open>2**53\<close> again.
\<close>

definition numberAdd :: "int \<Rightarrow> int \<Rightarrow> int" where
  "numberAdd x y =
     (if x + y < 0 then - int (toNumber (nat (- (x + y)))) else int (toNumber (nat (x + y))))"

section \<open>MegaFlowClient: nonce management\<close>

text \<open>
  \<open>nonceCache\<close> is a \<^verbatim>\<open>Map<string, number>\<close>, keyed by the lower-cased address.
  The pending nonce that \<open>publicClient.getTransactionCount\<close> answers is an input of
  the model (\<open>networkNonce\<close>, a transaction count: an integer-valued number): the
  read-compare-store part after the \<open>await\<close> has no suspension point, so one call is
  one atomic step on the cache. The nonces are numbers, so \<^verbatim>\<open>lastUsed + 1\<close> is the
  addition of doubles, \<open>numberAdd\<close>; \<^verbatim>\<open>Math.max\<close> of two numbers is exact.
\<close>

type_synonym nonceCache = "string \<rightharpoonup> int"

definition getNextNonce :: "string \<Rightarrow> int \<Rightarrow> nonceCache \<Rightarrow> int \<times> nonceCache" where
  "getNextNonce address networkNonce cache =
     (let key = toLowerCase address;
          lastUsed = (case cache key of Some n \<Rightarrow> n | None \<Rightarrow> - 1);
          nonce = max networkNonce (numberAdd lastUsed 1)
      in (nonce, cache(key \<mapsto> nonce)))"

definition resetNonce :: "string \<Rightarrow> nonceCache \<Rightarrow> nonceCache" where
  "resetNonce address cache = cache(toLowerCase address := None)"

section \<open>Calls, results, receipts\<close>

text \<open>
  The interfaces of \<open>types.ts\<close>, and what the code reads of viem's
  \<open>TransactionReceipt\<close>. A \<open>bigint\<close> is an \<^typ>\<open>int\<close>; the \<open>uint256\<close> values that
  come out of the ABI decoder are \<^typ>\<open>nat\<close>.
\<close>

record MegaCall =
  target :: string
  "value" :: int
  callData :: string

record MegaCallResult =
  success :: bool
  returnData :: string

record Log =
  data :: string
  topics :: "string list"

record TransactionReceipt =
  logs :: "Log list"
  status :: string
  gasUsed :: int
  effectiveGasPrice :: int
  blockNumber :: int
  transactionHash :: string

text \<open>
  What \<open>decodeEventLog\<close> returns for the two events of \<open>MEGA_ROUTER_ABI\<close>: the
  constructor is the \<open>eventName\<close>, its arguments are the \<open>args\<close> the code casts to
  (\<open>sender, callCount, totalValue\<close> and \<open>callIndex, target, value, success\<close>).
\<close>

datatype DecodedEvent =
  BatchExecuted string nat nat
| CallExecuted nat string nat bool

text \<open>
  An exception: a \<open>MegaFlowError\<close> with its code and message, or whatever the
  chain-client library, the wallet or \<open>fetch\<close> throws, kept as the message that
  \<^verbatim>\<open>err instanceof Error ? err.message : String(err)\<close> reads from it.
\<close>

datatype error = MegaFlowError string string | LibraryError string

section \<open>The ABI decoder of the chain-client library\<close>

text \<open>
  \<open>decodeAbiParameters\<close> is viem's, not this repository's: the model takes it as a
  parameter, one field per parameter list the code passes to it (\<open>[string]\<close>,
  \<open>[uint256]\<close>, \<open>[uint256, bytes]\<close> and \<open>[(bool success, bytes returnData)[]]\<close>).
  \<open>None\<close> is a thrown decoding error (every call site sits in a \<open>try\<close>).
  \<open>decodeEventLog\<close> is a parameter of the same kind, of type
  \<^typ>\<open>string \<Rightarrow> string list \<Rightarrow> DecodedEvent option\<close> (the log's \<open>data\<close> and \<open>topics\<close>).
\<close>

record abiDecoder =
  decodeString :: "string \<Rightarrow> string option"
  decodeUint256 :: "string \<Rightarrow> nat option"
  decodeUint256Bytes :: "string \<Rightarrow> (nat \<times> string) option"
  decodeResults :: "string \<Rightarrow> MegaCallResult list option"

text \<open>
  What the recursion of \<open>decodeRevertError\<close> needs of the library: the \<open>bytes\<close> it
  returns, as a hex string, are no longer than the hex string it was given (a decoder
  cuts them out of its input).
\<close>

definition shrinking :: "abiDecoder \<Rightarrow> bool" where
  "shrinking D = (\<forall>d i x. decodeUint256Bytes D d = Some (i, x) \<longrightarrow> length x \<le> length d)"

section \<open>utils: decodeRevertError\<close>

definition decodePanicCode :: "nat \<Rightarrow> string" where
  "decodePanicCode code =
     (case map_of
        [(0x00, ''generic panic''),
         (0x01, ''assert failed''),
         (0x11, ''arithmetic overflow/underflow''),
         (0x12, ''division by zero''),
         (0x21, ''invalid enum value''),
         (0x22, ''storage access out of bounds''),
         (0x31, ''pop on empty array''),
         (0x32, ''array index out of bounds''),
         (0x41, ''out of memory''),
         (0x51, ''uninitialized function pointer'')] code of
        Some m \<Rightarrow> m
      | None \<Rightarrow> ''code 0x'' @ natToString 16 code)"

definition customErrors :: "(string \<times> string) list" where
  "customErrors =
     [(''0x3e3f8f73'', ''ReentrancyGuard: re-entrant call''),
      (''0xfe9ba5cd'', ''InsufficientETH: not enough ETH sent''),
      (''0xd4a5e2bf'', ''InsufficientFee: flat fee not covered''),
      (''0x1425f8f8'', ''InvalidTarget: call target is address(0)''),
      (''0x4a3f0f2d'', ''EmptyCalldata: callData must not be empty''),
      (''0x85d9d0b8'', ''CallFailed: one of the batch calls reverted''),
      (''0xb5e9e6d2'', ''FeeTransferFailed: could not send fee to collector''),
      (''0x750b219c'', ''SweepFailed: could not return leftover ETH'')]"

definition arrow :: string where
  "arrow = [CHR 0xE2, CHR 0x86, CHR 0x92]"

text \<open>
  The function recurses on the inner bytes of a \<open>CallFailed\<close> payload with no bound
  of its own, so it is a partial function: \<open>None\<close> is "does not return". A thrown
  decoding error is the \<open>None\<close> of the decoder and takes the \<open>catch\<close> branch.
\<close>

partial_function (option) decodeRevertError :: "abiDecoder \<Rightarrow> string \<Rightarrow> string option" where
  "decodeRevertError D revertData =
     (if revertData = [] \<or> revertData = ''0x'' \<or> length revertData < 10
      then Some ''Execution reverted with no data''
      else
        let selector = toLowerCase (take 10 revertData) in
        if selector = ''0x08c379a0'' then
          (case decodeString D (''0x'' @ drop 10 revertData) of
             Some message \<Rightarrow> Some (''Reverted: '' @ message)
           | None \<Rightarrow> Some ''Reverted (Error selector found but decode failed)'')
        else if selector = ''0x4e487b71'' then
          (case decodeUint256 D (''0x'' @ drop 10 revertData) of
             Some code \<Rightarrow> Some (''Panic: '' @ decodePanicCode (toNumber code))
           | None \<Rightarrow> Some ''Panic: unknown code'')
        else
          (case map_of customErrors selector of
             Some fixed \<Rightarrow>
               if selector = ''0x85d9d0b8'' then
                 (case decodeUint256Bytes D (''0x'' @ drop 10 revertData) of
                    Some (callIndex, innerData) \<Rightarrow>
                      Option.bind (decodeRevertError D innerData)
                        (\<lambda>inner. Some (''Call #'' @ natToString 10 callIndex @ '' failed ''
                                          @ arrow @ '' '' @ inner))
                  | None \<Rightarrow> Some fixed)
               else Some fixed
           | None \<Rightarrow> Some (''Reverted with unknown selector '' @ selector)))"

section \<open>utils: parseCallResults\<close>

text \<open>
  Strategy 1, the \<open>try\<close> block over \<open>rawReturnData\<close>: \<open>Some\<close> is its \<open>return\<close>,
  \<open>None\<close> is falling through to the logs (the argument is absent or trivial, or the
  decoder throws).
\<close>

definition decodeReturnValue :: "abiDecoder \<Rightarrow> string option \<Rightarrow> MegaCallResult list option" where
  "decodeReturnValue D rawReturnData =
     (case rawReturnData of
        None \<Rightarrow> None
      | Some raw \<Rightarrow>
          if raw \<noteq> [] \<and> raw \<noteq> ''0x'' \<and> 2 < length raw
          then map_option (map (\<lambda>r. \<lparr>success = success r, returnData = returnData r\<rparr>))
                 (decodeResults D raw)
          else None)"

text \<open>
  Strategy 2, the loop over \<open>receipt.logs\<close>. \<open>resultMap\<close> is a \<open>Map\<close> keyed by
  \<open>Number(callIndex)\<close>: an association list with one entry per key, so its length is
  the map's \<open>size\<close>. A log that does not decode is skipped.
\<close>

definition scanCallExecuted ::
  "(string \<Rightarrow> string list \<Rightarrow> DecodedEvent option) \<Rightarrow> Log list \<Rightarrow> (nat \<times> MegaCallResult) list" where
  "scanCallExecuted E ls =
     fold (\<lambda>log resultMap.
             case E (data log) (topics log) of
               Some (CallExecuted callIndex tgt v ok) \<Rightarrow>
                 AList.update (toNumber callIndex) \<lparr>success = ok, returnData = ''0x''\<rparr> resultMap
             | _ \<Rightarrow> resultMap)
          ls []"

text \<open>
  \<open>callCount\<close> is the number of calls of the batch (the builder passes
  \<open>this.calls.length\<close>), a \<^typ>\<open>nat\<close>; \<^verbatim>\<open>Array.from({ length: callCount }, f)\<close> is
  \<open>f\<close> mapped over the indices below it.
\<close>

definition parseCallResults ::
  "abiDecoder \<Rightarrow> (string \<Rightarrow> string list \<Rightarrow> DecodedEvent option) \<Rightarrow> TransactionReceipt
   \<Rightarrow> nat \<Rightarrow> string option \<Rightarrow> MegaCallResult list" where
  "parseCallResults D E receipt callCount rawReturnData =
     (case decodeReturnValue D rawReturnData of
        Some results \<Rightarrow> results
      | None \<Rightarrow>
          let resultMap = scanCallExecuted E (logs receipt) in
          if 0 < length resultMap
          then map (\<lambda>i. case map_of resultMap i of
                           Some r \<Rightarrow> r
                         | None \<Rightarrow> \<lparr>success = True, returnData = ''0x''\<rparr>)
                   [0..<callCount]
          else map (\<lambda>i. \<lparr>success = True, returnData = ''0x''\<rparr>) [0..<callCount])"

section \<open>utils: applyMegaethGasBuffer, buildSafeApproveCalls\<close>

text \<open>Division of bigints truncates towards zero.\<close>

definition bigintDiv :: "int \<Rightarrow> int \<Rightarrow> int" where
  "bigintDiv a b = sgn a * sgn b * (\<bar>a\<bar> div \<bar>b\<bar>)"

definition applyMegaethGasBuffer :: "int \<Rightarrow> int \<Rightarrow> int" where
  "applyMegaethGasBuffer estimate bufferPct = bigintDiv (estimate * (100 + bufferPct)) 100"

text \<open>
  The calldata is put together from strings: the spender without its \<open>0x\<close> and the
  amount in hex, each padded on the left to 64 characters.
\<close>

definition approveCalldata :: "string \<Rightarrow> int \<Rightarrow> string" where
  "approveCalldata spender amt =
     (let selector = ''0x095ea7b3'';
          paddedSpender = padStart 64 (CHR ''0'') (drop 2 spender);
          paddedAmount = padStart 64 (CHR ''0'') (bigintToString 16 amt)
      in selector @ paddedSpender @ paddedAmount)"

definition buildSafeApproveCalls :: "string \<Rightarrow> string \<Rightarrow> int \<Rightarrow> int \<Rightarrow> MegaCall list" where
  "buildSafeApproveCalls tok spender amount currentAllowance =
     (if 0 < currentAllowance \<and> currentAllowance \<noteq> amount
      then [\<lparr>target = tok, value = 0, callData = approveCalldata spender 0\<rparr>]
      else [])
     @ [\<lparr>target = tok, value = 0, callData = approveCalldata spender amount\<rparr>]"

section \<open>A reference ABI decoder\<close>

text \<open>
  A decoder after the contract ABI's head/tail encoding, reading hex strings the way
  viem's \<open>hexToBytes\<close> does (two characters dropped, an odd digit string padded on
  the left, a character that is no hex digit is an error). It instantiates the decoder
  parameter at concrete payloads.
\<close>

definition hexVal :: "char \<Rightarrow> nat option" where
  "hexVal c = map_of (zip ''0123456789abcdefABCDEF''
                 [0, 1, 2, 3, 4, 5, 6, 7, 8, 9, 10, 11, 12, 13, 14, 15, 10, 11, 12, 13, 14, 15]) c"

fun hexPairs :: "string \<Rightarrow> nat list option" where
  "hexPairs (a # b # rest) =
     (case (hexVal a, hexVal b, hexPairs rest) of
        (Some x, Some y, Some bs) \<Rightarrow> Some ((16 * x + y) # bs)
      | _ \<Rightarrow> None)"
| "hexPairs [a] = None"
| "hexPairs [] = Some []"

definition hexToBytes :: "string \<Rightarrow> nat list option" where
  "hexToBytes hex =
     (let hexString = drop 2 hex
      in hexPairs (if odd (length hexString) then CHR ''0'' # hexString else hexString))"

definition bytesToHex :: "nat list \<Rightarrow> string" where
  "bytesToHex bs = ''0x'' @ concat (map (\<lambda>b. [digitChar (b div 16), digitChar (b mod 16)]) bs)"

definition byteToChar :: "nat \<Rightarrow> char" where
  "byteToChar n =
     Char (odd n) (odd (n div 2)) (odd (n div 4)) (odd (n div 8))
          (odd (n div 16)) (odd (n div 32)) (odd (n div 64)) (odd (n div 128))"

text \<open>A 32-byte big-endian word at a byte position; \<open>None\<close> when it runs off the data.\<close>

definition readWord :: "nat list \<Rightarrow> nat \<Rightarrow> nat option" where
  "readWord bs pos =
     (if pos + 32 \<le> length bs
      then Some (foldl (\<lambda>acc b. 256 * acc + b) 0 (take 32 (drop pos bs)))
      else None)"

text \<open>
  A dynamic \<open>bytes\<close>: the head slot holds the offset of the tail (from \<open>base\<close>), the
  tail is a length word followed by that many bytes.
\<close>

definition readDynamic :: "nat list \<Rightarrow> nat \<Rightarrow> nat \<Rightarrow> nat list option" where
  "readDynamic bs base headPos =
     (case readWord bs headPos of
        None \<Rightarrow> None
      | Some off \<Rightarrow>
          (case readWord bs (base + off) of
             None \<Rightarrow> None
           | Some len \<Rightarrow>
               if len = 0 then Some []
               else if base + off + 32 + len \<le> length bs
               then Some (take len (drop (base + off + 32) bs))
               else None))"

definition abiBytes :: "string \<Rightarrow> nat list option" where
  "abiBytes hex =
     (case hexToBytes hex of
        None \<Rightarrow> None
      | Some bs \<Rightarrow> if length bs < 32 then None else Some bs)"

definition refDecodeString :: "string \<Rightarrow> string option" where
  "refDecodeString hex =
     (case abiBytes hex of
        None \<Rightarrow> None
      | Some bs \<Rightarrow> map_option (map byteToChar) (readDynamic bs 0 0))"

definition refDecodeUint256 :: "string \<Rightarrow> nat option" where
  "refDecodeUint256 hex =
     (case abiBytes hex of None \<Rightarrow> None | Some bs \<Rightarrow> readWord bs 0)"

definition refDecodeUint256Bytes :: "string \<Rightarrow> (nat \<times> string) option" where
  "refDecodeUint256Bytes hex =
     (case abiBytes hex of
        None \<Rightarrow> None
      | Some bs \<Rightarrow>
          (case readWord bs 0 of
             None \<Rightarrow> None
           | Some callIndex \<Rightarrow>
               (case readDynamic bs 0 32 of
                  None \<Rightarrow> None
                | Some inner \<Rightarrow> Some (callIndex, bytesToHex inner))))"

text \<open>
  The array \<open>(bool success, bytes returnData)[]\<close>: the offset of the array, its length,
  one offset per element, and each element a \<open>bool\<close> word (0 or 1) with a dynamic
  \<open>bytes\<close>.
\<close>

definition readResult :: "nat list \<Rightarrow> nat \<Rightarrow> MegaCallResult option" where
  "readResult bs start =
     (case readWord bs start of
        None \<Rightarrow> None
      | Some b \<Rightarrow>
          if 1 < b then None
          else (case readDynamic bs start (start + 32) of
                  None \<Rightarrow> None
                | Some d \<Rightarrow> Some \<lparr>success = (b = 1), returnData = bytesToHex d\<rparr>))"

definition refDecodeResults :: "string \<Rightarrow> MegaCallResult list option" where
  "refDecodeResults hex =
     (case abiBytes hex of
        None \<Rightarrow> None
      | Some bs \<Rightarrow>
          (case readWord bs 0 of
             None \<Rightarrow> None
           | Some off \<Rightarrow>
               (case readWord bs off of
                  None \<Rightarrow> None
                | Some n \<Rightarrow>
                    if off + 32 + 32 * n \<le> length bs
                    then those (map (\<lambda>i. case readWord bs (off + 32 + 32 * i) of
                                            None \<Rightarrow> None
                                          | Some eoff \<Rightarrow> readResult bs (off + 32 + eoff))
                                    [0..<n])
                    else None)))"

section \<open>MegaFlowBuilder: objects and the store\<close>

text \<open>
  The builder keeps two arrays, \<open>this.calls\<close> and \<open>this.operations\<close>, that hold
  references to \<open>MegaCall\<close> and \<open>RecordedOperation\<close> objects, and \<open>getCalls\<close>,
  \<open>getOperations\<close> and \<open>getState\<close> hand out copies of the arrays, so the claims about
  snapshots depend on what is shared. Arrays and objects therefore live in a store,
  addressed by references; a field that holds an object holds its reference.
\<close>

type_synonym ref = nat

text \<open>The values of the type \<open>OperationType\<close>: \<open>'transfer'\<close>, \<open>'approve'\<close>, ...\<close>

datatype OperationType =
  OpTransfer | OpApprove | OpSafeApprove | OpSwap | OpWrap | OpUnwrap | OpKyberSwap
| OpNftTransfer | OpCustom

text \<open>
  \<open>opType\<close> is the field \<open>type\<close>; \<open>call\<close> refers to the same object the calls array
  refers to; the metadata the builder writes maps keys to strings.
\<close>

record RecordedOperation =
  opType :: OperationType
  call :: ref
  metadata :: "(string \<times> string) list option"
  timestamp :: nat

text \<open>
  \<open>encodeFunctionData\<close> is viem's and a parameter of the model: given the ABI, the
  function name and the arguments it returns the calldata or throws (an address that is
  none, an integer out of range, a function the ABI does not have).
\<close>

datatype abi = ERC20_ABI | ERC721_ABI | UNISWAP_V2_ROUTER_ABI | WETH_ABI | UserAbi "string list"

datatype abiArg = Address string | Uint int | Boolean bool | AddressArray "string list"

type_synonym encodeFunctionData = "abi \<Rightarrow> string \<Rightarrow> abiArg list \<Rightarrow> error + string"

text \<open>
  The chain client and the wallet, as the builder uses them: each method is a function
  of its request that returns the answer or throws. The argument object of
  \<open>simulateContract\<close> and \<open>estimateContractGas\<close> is \<open>SimulateParams\<close> (\<open>ethValue\<close> is its
  field \<open>value\<close>, the ABI is always \<open>MEGA_ROUTER_ABI\<close>); the \<open>request\<close> that
  \<open>simulateContract\<close> answers has the same shape. An account is its address;
  \<open>walletAccount\<close> is the wallet client's field \<open>account\<close>.
\<close>

record SimulateParams =
  address :: string
  functionName :: string
  args :: "MegaCall list"
  ethValue :: int
  account :: "string option"
  gas :: "int option"

record PublicClient =
  readContract :: "string \<Rightarrow> MegaCall list \<Rightarrow> error + int"
  simulateContract :: "SimulateParams \<Rightarrow> error + MegaCallResult list \<times> SimulateParams"
  estimateContractGas :: "SimulateParams \<Rightarrow> error + int"
  request :: "string \<Rightarrow> string list \<Rightarrow> error + TransactionReceipt"

record WalletClient =
  walletAccount :: "string option"
  signTransaction :: "SimulateParams \<Rightarrow> error + string"

text \<open>What \<open>getState\<close> returns: two references to arrays, and two numbers.\<close>

record BuilderState =
  calls :: ref
  operations :: ref
  totalValue :: int
  chainId :: nat

text \<open>
  \<open>MegaFlowConfig\<close>: the fields \<open>routerAddress\<close>, \<open>chain\<close> (of which the builder keeps
  the id) and \<open>debug\<close>, all optional.
\<close>

record MegaFlowConfig =
  configRouterAddress :: "string option"
  configChainId :: "nat option"
  configDebug :: "bool option"

text \<open>
  The state: the store (\<open>arrays\<close>, \<open>callObjs\<close>, \<open>opObjs\<close>, and \<open>fresh\<close>, the next
  unused reference), the clocks, and the fields of the builder \<open>this\<close>.
  \<open>Date.now()\<close> and \<open>performance.now()\<close> read the environment: \<open>dateNow s k\<close> is what
  the \<open>k\<close>-th call of \<open>Date.now()\<close> returns, \<open>performanceNow s k\<close> what the \<open>k\<close>-th
  call of \<open>performance.now()\<close> inside one \<open>execute*\<close> returns.
\<close>

record state =
  arrays :: "ref \<Rightarrow> ref list"
  callObjs :: "ref \<Rightarrow> MegaCall"
  opObjs :: "ref \<Rightarrow> RecordedOperation"
  fresh :: ref
  dateNow :: "nat \<Rightarrow> nat"
  dateReads :: nat
  performanceNow :: "nat \<Rightarrow> int"
  calls :: ref
  operations :: ref
  publicClient :: PublicClient
  walletClient :: "WalletClient option"
  routerAddress :: string
  chainId :: nat
  debug :: bool

definition Date_now :: "state \<Rightarrow> nat \<times> state" where
  "Date_now s = (dateNow s (dateReads s), s\<lparr>dateReads := Suc (dateReads s)\<rparr>)"

definition newArray :: "ref list \<Rightarrow> state \<Rightarrow> ref \<times> state" where
  "newArray xs s = (fresh s, s\<lparr>arrays := (arrays s)(fresh s := xs), fresh := Suc (fresh s)\<rparr>)"

definition newCall :: "MegaCall \<Rightarrow> state \<Rightarrow> ref \<times> state" where
  "newCall c s = (fresh s, s\<lparr>callObjs := (callObjs s)(fresh s := c), fresh := Suc (fresh s)\<rparr>)"

definition newOperation :: "RecordedOperation \<Rightarrow> state \<Rightarrow> ref \<times> state" where
  "newOperation r s = (fresh s, s\<lparr>opObjs := (opObjs s)(fresh s := r), fresh := Suc (fresh s)\<rparr>)"

definition arrayPush :: "ref \<Rightarrow> ref \<Rightarrow> state \<Rightarrow> state" where
  "arrayPush a x s = s\<lparr>arrays := (arrays s)(a := arrays s a @ [x])\<rparr>"

definition arrayPop :: "ref \<Rightarrow> state \<Rightarrow> state" where
  "arrayPop a s = s\<lparr>arrays := (arrays s)(a := butlast (arrays s a))\<rparr>"

text \<open>Two constants of \<open>constants.ts\<close>; 4326 is the id of \<open>megaethMainnet\<close>.\<close>

definition MAINNET_ROUTER_ADDRESS :: string where
  "MAINNET_ROUTER_ADDRESS = ''0x9c1528e7688ee7122781dc8ed05686383b763ccb''"

definition MEGAETH_TOKENS_WETH :: string where
  "MEGAETH_TOKENS_WETH = ''0x4200000000000000000000000000000000000006''"

text \<open>
  The constructor, in a state whose store and clocks are given; \<open>client\<close> is what
  \<open>createPublicClient\<close> returns.
\<close>

definition newMegaFlowBuilder :: "MegaFlowConfig \<Rightarrow> PublicClient \<Rightarrow> state \<Rightarrow> state" where
  "newMegaFlowBuilder config client s =
     (let (a, s1) = newArray [] s;
          (b, s2) = newArray [] s1
      in s2\<lparr>calls := a, operations := b,
            routerAddress := (case configRouterAddress config of
                                Some r \<Rightarrow> r | None \<Rightarrow> MAINNET_ROUTER_ADDRESS),
            chainId := (case configChainId config of Some c \<Rightarrow> c | None \<Rightarrow> 4326),
            debug := (case configDebug config of Some d \<Rightarrow> d | None \<Rightarrow> False),
            publicClient := client,
            walletClient := None\<rparr>)"

section \<open>MegaFlowBuilder: the call builders\<close>

text \<open>
  A builder method that cannot throw maps the state to the state; one that encodes its
  calldata with \<open>encodeFunctionData\<close> returns the exception, if any, beside the state it
  leaves (what was pushed before the exception stays pushed). All of them return
  \<open>this\<close>, which the model leaves out.
\<close>

definition recordOperation ::
  "OperationType \<Rightarrow> ref \<Rightarrow> (string \<times> string) list option \<Rightarrow> state \<Rightarrow> state" where
  "recordOperation ty c meta s =
     (let (now, s1) = Date_now s;
          (r, s2) = newOperation \<lparr>opType = ty, call = c, metadata = meta, timestamp = now\<rparr> s1
      in arrayPush (operations s2) r s2)"

definition add :: "string \<Rightarrow> string \<Rightarrow> int \<Rightarrow> state \<Rightarrow> state" where
  "add tgt cd v s =
     (let (c, s1) = newCall \<lparr>target = tgt, value = v, callData = cd\<rparr> s;
          s2 = arrayPush (calls s1) c s1
      in recordOperation OpCustom c None s2)"

definition addCall ::
  "encodeFunctionData \<Rightarrow> string \<Rightarrow> abi \<Rightarrow> string \<Rightarrow> abiArg list \<Rightarrow> int \<Rightarrow> state
   \<Rightarrow> error option \<times> state" where
  "addCall enc tgt a fn as v s =
     (case enc a fn as of
        Inl e \<Rightarrow> (Some e, s)
      | Inr cd \<Rightarrow> (None, add tgt cd v s))"

text \<open>The metadata of \<open>sendETH\<close> is \<^verbatim>\<open>{ type: 'sendETH', to, value: value.toString() }\<close>.\<close>

definition sendETH :: "string \<Rightarrow> int \<Rightarrow> state \<Rightarrow> state" where
  "sendETH dest v s =
     (let (c, s1) = newCall \<lparr>target = dest, value = v, callData = ''0x00''\<rparr> s;
          s2 = arrayPush (calls s1) c s1
      in recordOperation OpCustom c
           (Some [(''type'', ''sendETH''), (''to'', dest), (''value'', bigintToString 10 v)]) s2)"

definition approve :: "encodeFunctionData \<Rightarrow> string \<Rightarrow> string \<Rightarrow> int \<Rightarrow> state \<Rightarrow> error option \<times> state" where
  "approve enc tok spender amount s =
     addCall enc tok ERC20_ABI ''approve'' [Address spender, Uint amount] 0 s"

text \<open>The loop of \<open>safeApprove\<close> over the calls that \<open>buildSafeApproveCalls\<close> built.\<close>

definition safeApprove :: "string \<Rightarrow> string \<Rightarrow> int \<Rightarrow> int \<Rightarrow> state \<Rightarrow> state" where
  "safeApprove tok spender amount currentAllowance s =
     fold (\<lambda>approvalCall st.
             let (c, s1) = newCall approvalCall st;
                 s2 = arrayPush (calls s1) c s1
             in recordOperation OpSafeApprove c
                  (Some [(''token'', tok), (''spender'', spender),
                         (''amount'', bigintToString 10 amount)]) s2)
          (buildSafeApproveCalls tok spender amount currentAllowance) s"

definition transfer :: "encodeFunctionData \<Rightarrow> string \<Rightarrow> string \<Rightarrow> int \<Rightarrow> state \<Rightarrow> error option \<times> state" where
  "transfer enc tok dest amount s =
     addCall enc tok ERC20_ABI ''transfer'' [Address dest, Uint amount] 0 s"

definition transferFrom ::
  "encodeFunctionData \<Rightarrow> string \<Rightarrow> string \<Rightarrow> string \<Rightarrow> int \<Rightarrow> state \<Rightarrow> error option \<times> state" where
  "transferFrom enc tok src dest amount s =
     addCall enc tok ERC20_ABI ''transferFrom'' [Address src, Address dest, Uint amount] 0 s"

fun multiTransfer ::
  "encodeFunctionData \<Rightarrow> string \<Rightarrow> (string \<times> int) list \<Rightarrow> state \<Rightarrow> error option \<times> state" where
  "multiTransfer enc tok [] s = (None, s)"
| "multiTransfer enc tok ((dest, amount) # rest) s =
     (case transfer enc tok dest amount s of
        (Some e, s1) \<Rightarrow> (Some e, s1)
      | (None, s1) \<Rightarrow> multiTransfer enc tok rest s1)"

definition transferNFT ::
  "encodeFunctionData \<Rightarrow> string \<Rightarrow> string \<Rightarrow> string \<Rightarrow> int \<Rightarrow> state \<Rightarrow> error option \<times> state" where
  "transferNFT enc nft src dest tokenId s =
     addCall enc nft ERC721_ABI ''safeTransferFrom'' [Address src, Address dest, Uint tokenId] 0 s"

definition approveNFT ::
  "encodeFunctionData \<Rightarrow> string \<Rightarrow> string \<Rightarrow> int \<Rightarrow> state \<Rightarrow> error option \<times> state" where
  "approveNFT enc nft dest tokenId s =
     addCall enc nft ERC721_ABI ''approve'' [Address dest, Uint tokenId] 0 s"

definition setApprovalForAll ::
  "encodeFunctionData \<Rightarrow> string \<Rightarrow> string \<Rightarrow> bool \<Rightarrow> state \<Rightarrow> error option \<times> state" where
  "setApprovalForAll enc nft operator approved s =
     addCall enc nft ERC721_ABI ''setApprovalForAll'' [Address operator, Boolean approved] 0 s"

definition wrapETH ::
  "encodeFunctionData \<Rightarrow> string option \<Rightarrow> int \<Rightarrow> state \<Rightarrow> error option \<times> state" where
  "wrapETH enc wethAddress amount s =
     addCall enc (case wethAddress of Some w \<Rightarrow> w | None \<Rightarrow> MEGAETH_TOKENS_WETH)
       WETH_ABI ''deposit'' [] amount s"

definition unwrapWETH ::
  "encodeFunctionData \<Rightarrow> string option \<Rightarrow> int \<Rightarrow> state \<Rightarrow> error option \<times> state" where
  "unwrapWETH enc wethAddress amount s =
     addCall enc (case wethAddress of Some w \<Rightarrow> w | None \<Rightarrow> MEGAETH_TOKENS_WETH)
       WETH_ABI ''withdraw'' [Uint amount] 0 s"

record SwapParams =
  router :: string
  amountIn :: int
  amountOutMin :: int
  path :: "string list"
  to :: string
  deadline :: "int option"

record ApproveAndSwapParams = SwapParams +
  token :: string
  currentAllowance :: "int option"

text \<open>\<^verbatim>\<open>BigInt(Math.floor(Date.now() / 1000) + minutes * 60)\<close>\<close>

definition deadlineInMinutes :: "int \<Rightarrow> state \<Rightarrow> int \<times> state" where
  "deadlineInMinutes minutes s =
     (let (now, s1) = Date_now s in (int (now div 1000) + minutes * 60, s1))"

definition deadlineOrDefault :: "'a SwapParams_scheme \<Rightarrow> state \<Rightarrow> int \<times> state" where
  "deadlineOrDefault params s =
     (case deadline params of Some d \<Rightarrow> (d, s) | None \<Rightarrow> deadlineInMinutes 5 s)"

definition swapExactTokensForTokens ::
  "encodeFunctionData \<Rightarrow> 'a SwapParams_scheme \<Rightarrow> state \<Rightarrow> error option \<times> state" where
  "swapExactTokensForTokens enc params s =
     (let (d, s1) = deadlineOrDefault params s
      in addCall enc (router params) UNISWAP_V2_ROUTER_ABI ''swapExactTokensForTokens''
           [Uint (amountIn params), Uint (amountOutMin params), AddressArray (path params),
            Address (to params), Uint d] 0 s1)"

definition swapExactETHForTokens ::
  "encodeFunctionData \<Rightarrow> 'a SwapParams_scheme \<Rightarrow> state \<Rightarrow> error option \<times> state" where
  "swapExactETHForTokens enc params s =
     (let (d, s1) = deadlineOrDefault params s
      in addCall enc (router params) UNISWAP_V2_ROUTER_ABI ''swapExactETHForTokens''
           [Uint (amountOutMin params), AddressArray (path params), Address (to params), Uint d]
           (amountIn params) s1)"

definition swapExactTokensForETH ::
  "encodeFunctionData \<Rightarrow> 'a SwapParams_scheme \<Rightarrow> state \<Rightarrow> error option \<times> state" where
  "swapExactTokensForETH enc params s =
     (let (d, s1) = deadlineOrDefault params s
      in addCall enc (router params) UNISWAP_V2_ROUTER_ABI ''swapExactTokensForETH''
           [Uint (amountIn params), Uint (amountOutMin params), AddressArray (path params),
            Address (to params), Uint d] 0 s1)"

definition approveAndSwap ::
  "encodeFunctionData \<Rightarrow> ApproveAndSwapParams \<Rightarrow> state \<Rightarrow> error option \<times> state" where
  "approveAndSwap enc params s =
     (case approve enc (token params) (router params) (amountIn params) s of
        (Some e, s1) \<Rightarrow> (Some e, s1)
      | (None, s1) \<Rightarrow> swapExactTokensForTokens enc params s1)"

text \<open>
  \<open>kyberSwap\<close> awaits two HTTP requests and reads \<open>BigInt(built.value)\<close> before it
  touches the builder. What they produce is the argument \<open>built\<close>: an exception, or the
  router address, the calldata and the value to add.
\<close>

definition kyberSwap :: "error + string \<times> string \<times> int \<Rightarrow> state \<Rightarrow> error option \<times> state" where
  "kyberSwap built s =
     (case built of
        Inl e \<Rightarrow> (Some e, s)
      | Inr (builtRouterAddress, builtData, builtValue) \<Rightarrow>
          (None, add builtRouterAddress builtData builtValue s))"

section \<open>MegaFlowBuilder: reading and undoing\<close>

text \<open>
  \<^verbatim>\<open>[...this.calls]\<close> is a new array with the same references in it. \<open>pop\<close> on
  an empty array removes nothing and returns \<open>undefined\<close>.
\<close>

definition getCalls :: "state \<Rightarrow> ref \<times> state" where
  "getCalls s = newArray (arrays s (calls s)) s"

definition getOperations :: "state \<Rightarrow> ref \<times> state" where
  "getOperations s = newArray (arrays s (operations s)) s"

definition getTotalValue :: "state \<Rightarrow> int" where
  "getTotalValue s = foldl (\<lambda>sum c. sum + value (callObjs s c)) 0 (arrays s (calls s))"

definition getState :: "state \<Rightarrow> BuilderState \<times> state" where
  "getState s =
     (let (a, s1) = newArray (arrays s (calls s)) s;
          (b, s2) = newArray (arrays s1 (operations s1)) s1
      in (\<lparr>BuilderState.calls = a, operations = b, totalValue = getTotalValue s2,
            chainId = chainId s2\<rparr>, s2))"

definition clear :: "state \<Rightarrow> state" where
  "clear s =
     (let (a, s1) = newArray [] s;
          (b, s2) = newArray [] s1
      in s2\<lparr>calls := a, operations := b\<rparr>)"

definition pop :: "state \<Rightarrow> ref option \<times> state" where
  "pop s =
     (let s1 = arrayPop (operations s) s;
          cs = arrays s1 (calls s1)
      in (if cs = [] then None else Some (last cs), arrayPop (calls s1) s1))"

section \<open>Sequences of builder calls\<close>

text \<open>
  One constructor per method that touches the two sequences, with its arguments;
  \<open>invoke\<close> calls the method and keeps the state it leaves, whether it returned or
  threw, and \<open>run\<close> makes the calls one after the other.
\<close>

datatype builderCall =
  Add string string int
| AddCall string abi string "abiArg list" int
| SendETH string int
| Approve string string int
| SafeApprove string string int int
| Transfer string string int
| TransferFrom string string string int
| MultiTransfer string "(string \<times> int) list"
| TransferNFT string string string int
| ApproveNFT string string int
| SetApprovalForAll string string bool
| WrapETH "string option" int
| UnwrapWETH "string option" int
| SwapExactTokensForTokens SwapParams
| SwapExactETHForTokens SwapParams
| SwapExactTokensForETH SwapParams
| ApproveAndSwap ApproveAndSwapParams
| KyberSwap "error + string \<times> string \<times> int"
| GetCalls
| GetOperations
| GetState
| Pop
| Clear

fun invoke :: "encodeFunctionData \<Rightarrow> builderCall \<Rightarrow> state \<Rightarrow> state" where
  "invoke enc (Add tgt cd v) s = add tgt cd v s"
| "invoke enc (AddCall tgt a fn as v) s = snd (addCall enc tgt a fn as v s)"
| "invoke enc (SendETH dest v) s = sendETH dest v s"
| "invoke enc (Approve tok spender amount) s = snd (approve enc tok spender amount s)"
| "invoke enc (SafeApprove tok spender amount cur) s = safeApprove tok spender amount cur s"
| "invoke enc (Transfer tok dest amount) s = snd (transfer enc tok dest amount s)"
| "invoke enc (TransferFrom tok src dest amount) s = snd (transferFrom enc tok src dest amount s)"
| "invoke enc (MultiTransfer tok transfers) s = snd (multiTransfer enc tok transfers s)"
| "invoke enc (TransferNFT nft src dest tokenId) s = snd (transferNFT enc nft src dest tokenId s)"
| "invoke enc (ApproveNFT nft dest tokenId) s = snd (approveNFT enc nft dest tokenId s)"
| "invoke enc (SetApprovalForAll nft operator approved) s =
     snd (setApprovalForAll enc nft operator approved s)"
| "invoke enc (WrapETH w amount) s = snd (wrapETH enc w amount s)"
| "invoke enc (UnwrapWETH w amount) s = snd (unwrapWETH enc w amount s)"
| "invoke enc (SwapExactTokensForTokens p) s = snd (swapExactTokensForTokens enc p s)"
| "invoke enc (SwapExactETHForTokens p) s = snd (swapExactETHForTokens enc p s)"
| "invoke enc (SwapExactTokensForETH p) s = snd (swapExactTokensForETH enc p s)"
| "invoke enc (ApproveAndSwap p) s = snd (approveAndSwap enc p s)"
| "invoke enc (KyberSwap built) s = snd (kyberSwap built s)"
| "invoke enc GetCalls s = snd (getCalls s)"
| "invoke enc GetOperations s = snd (getOperations s)"
| "invoke enc GetState s = snd (getState s)"
| "invoke enc Pop s = snd (pop s)"
| "invoke enc Clear s = clear s"

definition run :: "encodeFunctionData \<Rightarrow> builderCall list \<Rightarrow> state \<Rightarrow> state" where
  "run enc ms s = fold (invoke enc) ms s"

text \<open>
  The invariant of the two sequences: they are two arrays, both allocated, of the same
  length.
\<close>

definition paired :: "state \<Rightarrow> bool" where
  "paired s =
     (calls s \<noteq> operations s \<and> calls s < fresh s \<and> operations s < fresh s \<and>
      length (arrays s (calls s)) = length (arrays s (operations s)))"

section \<open>Writes through a snapshot\<close>

text \<open>
  What a caller can do to a value it was handed: replace the contents of an array
  (\<open>push\<close>, \<open>pop\<close>, \<open>splice\<close>, an assignment to an index or to \<open>length\<close>), or assign the
  fields of a call object or of an operation record. \<open>onSnapshot\<close> says that a write
  goes to the snapshot: to one of its two arrays, to a call object one of them refers to
  (directly or through an operation's \<open>call\<close>), or to an operation record.
  \<open>onSnapshotArrays\<close> keeps the writes to the two arrays.
\<close>

datatype mutation =
  ArrayWrite ref "ref list"
| CallWrite ref MegaCall
| OperationWrite ref RecordedOperation

fun mutate :: "mutation \<Rightarrow> state \<Rightarrow> state" where
  "mutate (ArrayWrite a xs) s = s\<lparr>arrays := (arrays s)(a := xs)\<rparr>"
| "mutate (CallWrite r c) s = s\<lparr>callObjs := (callObjs s)(r := c)\<rparr>"
| "mutate (OperationWrite r x) s = s\<lparr>opObjs := (opObjs s)(r := x)\<rparr>"

fun onSnapshot :: "BuilderState \<Rightarrow> state \<Rightarrow> mutation \<Rightarrow> bool" where
  "onSnapshot snap s (ArrayWrite a xs) =
     (a = BuilderState.calls snap \<or> a = BuilderState.operations snap)"
| "onSnapshot snap s (CallWrite r c) =
     (r \<in> set (arrays s (BuilderState.calls snap)) \<or>
      r \<in> set (map (\<lambda>x. call (opObjs s x)) (arrays s (BuilderState.operations snap))))"
| "onSnapshot snap s (OperationWrite r x) =
     (r \<in> set (arrays s (BuilderState.operations snap)))"

fun onSnapshotArrays :: "BuilderState \<Rightarrow> mutation \<Rightarrow> bool" where
  "onSnapshotArrays snap (ArrayWrite a xs) =
     (a = BuilderState.calls snap \<or> a = BuilderState.operations snap)"
| "onSnapshotArrays snap (CallWrite r c) = False"
| "onSnapshotArrays snap (OperationWrite r x) = False"

text \<open>
  What the builder holds, read through its own fields: the calls, the operations (each
  with the call it refers to), and the total value.
\<close>

definition ledger :: "state \<Rightarrow> MegaCall list \<times> (RecordedOperation \<times> MegaCall) list \<times> int" where
  "ledger s =
     (map (callObjs s) (arrays s (calls s)),
      map (\<lambda>x. (opObjs s x, callObjs s (call (opObjs s x)))) (arrays s (operations s)),
      getTotalValue s)"

section \<open>MegaFlowBuilder: simulate, executeSync, executeRealtime\<close>

text \<open>
  The three methods are \<open>async\<close>: they call the chain client and the wallet, read the
  clock and write to the console. The model runs one of them from its call to its
  result, with no other code of the caller in between, and returns what it did to the
  outside, in order (a list of \<open>io\<close>), beside its result: \<open>Inl\<close> an exception the
  caller sees (the promise rejects), \<open>Inr\<close> the value it returns. \<open>ConsoleLog\<close> carries
  the message of a \<open>console.log\<close> (its second argument, the data, is left out).
\<close>

datatype io =
  ReadContract string "MegaCall list"
| SimulateContract SimulateParams
| EstimateContractGas SimulateParams
| SignTransaction SimulateParams
| Request string "string list"
| PerformanceNow
| ConsoleLog string

text \<open>
  The two objects \<open>simulate\<close> returns: \<open>Success results gasEstimate\<close> is
  \<^verbatim>\<open>{ success: true, results, gasEstimate }\<close> and
  \<open>Failure error revertReason failedCallIndex\<close> is
  \<^verbatim>\<open>{ success: false, error, revertReason, failedCallIndex }\<close>.
\<close>

datatype MegaFlowSimulationResult =
  Success "MegaCallResult list" int
| Failure string string "nat option"

record ExecuteOptions =
  gasLimit :: "int option"
  maxFeePerGas :: "int option"
  maxPriorityFeePerGas :: "int option"
  nonce :: "int option"

record MegaFlowSyncResult =
  receipt :: TransactionReceipt
  results :: "MegaCallResult list"
  gasUsed :: int
  executionTimeMs :: int

text \<open>
  \<open>extractFailedCallIndex\<close> tries two regular expressions on the message:
  \<^verbatim>\<open>/CallFailed\((\d+)/\<close>, then \<^verbatim>\<open>/call\s*#?\s*(\d+)/i\<close>. Each is matched at
  the leftmost position where it matches, and the digits are taken greedily; the three
  character classes are disjoint, so backtracking finds nothing else. The flag
  \<^verbatim>\<open>i\<close> lets \<^verbatim>\<open>call\<close> match the ASCII letters of either case and no other
  character. \<open>parseInt\<close> reads the digits as a number (a double: a run of more than 308
  digits, which JavaScript reads as \<open>Infinity\<close>, is outside the model).

  \<^verbatim>\<open>\s\<close> matches the white space and the line terminators of ECMAScript: U+0009 to
  U+000D, U+0020, U+00A0, U+1680, U+2000 to U+200A, U+2028, U+2029, U+202F, U+205F,
  U+3000 and U+FEFF. A message is held as the UTF-8 encoding of its text, as the arrow
  is, so one of these characters is one, two or three bytes: \<open>spaceWidth s\<close> is the
  number of bytes of the white-space character that \<open>s\<close> begins with, 0 when it begins
  with none, and \<open>skipSpaces\<close> is \<^verbatim>\<open>\s*\<close>. The bytes of \<^verbatim>\<open>call\<close>, \<^verbatim>\<open>#\<close> and the
  digits are ASCII and occur in no longer character.
\<close>

definition isDigit :: "char \<Rightarrow> bool" where
  "isDigit c = (c \<in> set ''0123456789'')"

definition asciiSpaces :: "char list" where
  "asciiSpaces = [CHR 0x09, CHR 0x0A, CHR 0x0B, CHR 0x0C, CHR 0x0D, CHR 0x20]"

definition unicodeSpaces :: "string list" where
  "unicodeSpaces =
     [[CHR 0xC2, CHR 0xA0],
      [CHR 0xE1, CHR 0x9A, CHR 0x80],
      [CHR 0xE2, CHR 0x80, CHR 0x80], [CHR 0xE2, CHR 0x80, CHR 0x81],
      [CHR 0xE2, CHR 0x80, CHR 0x82], [CHR 0xE2, CHR 0x80, CHR 0x83],
      [CHR 0xE2, CHR 0x80, CHR 0x84], [CHR 0xE2, CHR 0x80, CHR 0x85],
      [CHR 0xE2, CHR 0x80, CHR 0x86], [CHR 0xE2, CHR 0x80, CHR 0x87],
      [CHR 0xE2, CHR 0x80, CHR 0x88], [CHR 0xE2, CHR 0x80, CHR 0x89],
      [CHR 0xE2, CHR 0x80, CHR 0x8A],
      [CHR 0xE2, CHR 0x80, CHR 0xA8], [CHR 0xE2, CHR 0x80, CHR 0xA9],
      [CHR 0xE2, CHR 0x80, CHR 0xAF],
      [CHR 0xE2, CHR 0x81, CHR 0x9F],
      [CHR 0xE3, CHR 0x80, CHR 0x80],
      [CHR 0xEF, CHR 0xBB, CHR 0xBF]]"

definition spaceWidth :: "string \<Rightarrow> nat" where
  "spaceWidth s =
     (case s of
        [] \<Rightarrow> 0
      | c # cs \<Rightarrow>
          if c \<in> set asciiSpaces then 1
          else if take 2 s \<in> set unicodeSpaces then 2
          else if take 3 s \<in> set unicodeSpaces then 3
          else 0)"

function skipSpaces :: "string \<Rightarrow> string" where
  "skipSpaces s = (if spaceWidth s = 0 then s else skipSpaces (drop (spaceWidth s) s))"
  by pat_completeness auto
termination
proof (relation "measure length")
  show "wf (measure length)" by simp
next
  fix s :: string
  assume w: "spaceWidth s \<noteq> 0"
  then have "s \<noteq> []" by (auto simp add: spaceWidth_def)
  with w show "(drop (spaceWidth s) s, s) \<in> measure length" by (cases s) simp_all
qed

definition parseInt :: "string \<Rightarrow> nat" where
  "parseInt ds =
     toNumber (foldl (\<lambda>n c. 10 * n + (case hexVal c of Some d \<Rightarrow> d | None \<Rightarrow> 0)) 0 ds)"

fun matchCallFailed :: "string \<Rightarrow> string option" where
  "matchCallFailed [] = None"
| "matchCallFailed (c # cs) =
     (if take 11 (c # cs) = ''CallFailed('' \<and> takeWhile isDigit (drop 11 (c # cs)) \<noteq> []
      then Some (takeWhile isDigit (drop 11 (c # cs)))
      else matchCallFailed cs)"

definition matchCallAt :: "string \<Rightarrow> string option" where
  "matchCallAt s =
     (if toLowerCase (take 4 s) = ''call''
      then
        let afterSpace = skipSpaces (drop 4 s);
            afterHash = (case afterSpace of
                           [] \<Rightarrow> []
                         | h # t \<Rightarrow> if h = CHR ''#'' then t else afterSpace);
            digits = takeWhile isDigit (skipSpaces afterHash)
        in if digits \<noteq> [] then Some digits else None
      else None)"

fun matchCall :: "string \<Rightarrow> string option" where
  "matchCall [] = None"
| "matchCall (c # cs) =
     (case matchCallAt (c # cs) of Some ds \<Rightarrow> Some ds | None \<Rightarrow> matchCall cs)"

definition extractFailedCallIndex :: "string \<Rightarrow> nat option" where
  "extractFailedCallIndex errorMessage =
     (case matchCallFailed errorMessage of
        Some ds \<Rightarrow> Some (parseInt ds)
      | None \<Rightarrow>
          (case matchCall errorMessage of
             Some ds \<Rightarrow> Some (parseInt ds)
           | None \<Rightarrow> None))"

text \<open>The validation helpers of utils.\<close>

definition assertCallsNotEmpty :: "MegaCall list \<Rightarrow> error option" where
  "assertCallsNotEmpty cs =
     (if length cs = 0
      then Some (MegaFlowError ''EMPTY_BATCH''
                   ''[MegaFlow] No calls in batch. Add at least one call before executing.'')
      else None)"

definition assertWalletConnected :: "WalletClient option \<Rightarrow> error option" where
  "assertWalletConnected w =
     (if w = None
      then Some (MegaFlowError ''WALLET_NOT_CONNECTED''
                   ''[MegaFlow] Wallet not connected. Call connect() or connectWithAccount() first.'')
      else None)"

definition assertAccount :: "WalletClient \<Rightarrow> error option" where
  "assertAccount w =
     (if walletAccount w = None
      then Some (MegaFlowError ''NO_ACCOUNT'' ''[MegaFlow] Wallet has no account attached.'')
      else None)"

text \<open>\<^verbatim>\<open>err instanceof Error ? err.message : String(err)\<close>\<close>

fun errorMessage :: "error \<Rightarrow> string" where
  "errorMessage (MegaFlowError code message) = message"
| "errorMessage (LibraryError message) = message"

definition log :: "state \<Rightarrow> string \<Rightarrow> io list" where
  "log s message = (if debug s then [ConsoleLog (''[MegaFlow] '' @ message)] else [])"

definition connect :: "WalletClient \<Rightarrow> state \<Rightarrow> state" where
  "connect w s = s\<lparr>walletClient := Some w\<rparr>"

definition callValues :: "state \<Rightarrow> MegaCall list" where
  "callValues s = map (callObjs s) (arrays s (calls s))"

definition calculateRequiredETH :: "state \<Rightarrow> io list \<times> (error + int)" where
  "calculateRequiredETH s =
     (if length (callValues s) = 0 then ([], Inr 0)
      else ([ReadContract (routerAddress s) (callValues s)],
            readContract (publicClient s) (routerAddress s) (callValues s)))"

text \<open>
  The \<open>catch\<close> block of \<open>simulate\<close>, after the external calls in \<open>trace\<close>. It calls
  \<open>decodeRevertError\<close> on the message; \<open>None\<close> is that call not returning.
\<close>

definition simulateCatch ::
  "abiDecoder \<Rightarrow> state \<Rightarrow> io list \<Rightarrow> error
   \<Rightarrow> (io list \<times> (error + MegaFlowSimulationResult)) option" where
  "simulateCatch D s trace err =
     (case decodeRevertError D (errorMessage err) of
        None \<Rightarrow> None
      | Some revertReason \<Rightarrow>
          Some (trace @ log s ''Simulation failed'',
                Inr (Failure (errorMessage err) revertReason
                       (extractFailedCallIndex (errorMessage err)))))"

text \<open>
  The argument object that \<open>simulate\<close> passes to \<open>simulateContract\<close> and again to
  \<open>estimateContractGas\<close>; \<^verbatim>\<open>this.walletClient?.account\<close> is absent without a wallet.
\<close>

definition simulateParams :: "state \<Rightarrow> int \<Rightarrow> SimulateParams" where
  "simulateParams s requiredETH =
     \<lparr>address = routerAddress s, functionName = ''executeBatch'', args = callValues s,
      ethValue = requiredETH,
      account = (case walletClient s of None \<Rightarrow> None | Some w \<Rightarrow> walletAccount w),
      gas = None\<rparr>"

definition simulate ::
  "abiDecoder \<Rightarrow> state \<Rightarrow> (io list \<times> (error + MegaFlowSimulationResult)) option" where
  "simulate D s =
     (case assertCallsNotEmpty (callValues s) of
        Some e \<Rightarrow> Some ([], Inl e)
      | None \<Rightarrow>
          (case calculateRequiredETH s of
             (t1, Inl e) \<Rightarrow> simulateCatch D s t1 e
           | (t1, Inr requiredETH) \<Rightarrow>
               let params = simulateParams s requiredETH
               in (case simulateContract (publicClient s) params of
                     Inl e \<Rightarrow> simulateCatch D s (t1 @ [SimulateContract params]) e
                   | Inr (result, req) \<Rightarrow>
                       (case estimateContractGas (publicClient s) params of
                          Inl e \<Rightarrow>
                            simulateCatch D s
                              (t1 @ [SimulateContract params, EstimateContractGas params]) e
                        | Inr gasEstimate \<Rightarrow>
                            Some (t1 @ [SimulateContract params, EstimateContractGas params],
                                  Inr (Success result
                                         (applyMegaethGasBuffer gasEstimate 10)))))))"

text \<open>
  \<open>executeSync\<close> and \<open>executeRealtime\<close>, each written out as the source writes it.
  \<open>this.walletClient!\<close> is read after \<open>assertWalletConnected\<close> has passed. The
  elapsed time is the difference of the two clock readings.
\<close>

definition executeSync ::
  "abiDecoder \<Rightarrow> (string \<Rightarrow> string list \<Rightarrow> DecodedEvent option) \<Rightarrow> ExecuteOptions \<Rightarrow> state
   \<Rightarrow> io list \<times> (error + MegaFlowSyncResult)" where
  "executeSync D E options s =
     (case assertCallsNotEmpty (callValues s) of
        Some e \<Rightarrow> ([], Inl e)
      | None \<Rightarrow>
     (case assertWalletConnected (walletClient s) of
        Some e \<Rightarrow> ([], Inl e)
      | None \<Rightarrow>
     (case assertAccount (the (walletClient s)) of
        Some e \<Rightarrow> ([], Inl e)
      | None \<Rightarrow>
          let w = the (walletClient s);
              startTime = performanceNow s 0;
              t0 = [PerformanceNow] @ log s ''Executing batch (sync)''
          in (case calculateRequiredETH s of
                (t1, Inl e) \<Rightarrow> (t0 @ t1, Inl e)
              | (t1, Inr requiredETH) \<Rightarrow>
                  let params = \<lparr>address = routerAddress s,
                                 functionName = ''executeBatch'', args = callValues s,
                                 ethValue = requiredETH, account = walletAccount w,
                                 gas = gasLimit options\<rparr>
                  in (case simulateContract (publicClient s) params of
                        Inl e \<Rightarrow> (t0 @ t1 @ [SimulateContract params], Inl e)
                      | Inr (result, req) \<Rightarrow>
                          let tx = req\<lparr>account := walletAccount w\<rparr>
                          in (case signTransaction w tx of
                                Inl e \<Rightarrow>
                                  (t0 @ t1 @ [SimulateContract params, SignTransaction tx], Inl e)
                              | Inr signedTx \<Rightarrow>
                                  (case request (publicClient s)
                                          ''eth_sendRawTransactionSync'' [signedTx] of
                                     Inl e \<Rightarrow>
                                       (t0 @ t1 @ [SimulateContract params, SignTransaction tx,
                                          Request ''eth_sendRawTransactionSync'' [signedTx]],
                                        Inl e)
                                   | Inr rcpt \<Rightarrow>
                                       let executionTime = performanceNow s 1 - startTime
                                       in (t0 @ t1 @ [SimulateContract params, SignTransaction tx,
                                             Request ''eth_sendRawTransactionSync'' [signedTx],
                                             PerformanceNow]
                                           @ log s ''Sync execution completed'',
                                           Inr \<lparr>receipt = rcpt,
                                                results = parseCallResults D E rcpt
                                                            (length (callValues s)) None,
                                                gasUsed = TransactionReceipt.gasUsed rcpt,
                                                executionTimeMs = executionTime\<rparr>))))))))"

definition executeRealtime ::
  "abiDecoder \<Rightarrow> (string \<Rightarrow> string list \<Rightarrow> DecodedEvent option) \<Rightarrow> ExecuteOptions \<Rightarrow> state
   \<Rightarrow> io list \<times> (error + MegaFlowSyncResult)" where
  "executeRealtime D E options s =
     (case assertCallsNotEmpty (callValues s) of
        Some e \<Rightarrow> ([], Inl e)
      | None \<Rightarrow>
     (case assertWalletConnected (walletClient s) of
        Some e \<Rightarrow> ([], Inl e)
      | None \<Rightarrow>
     (case assertAccount (the (walletClient s)) of
        Some e \<Rightarrow> ([], Inl e)
      | None \<Rightarrow>
          let w = the (walletClient s);
              startTime = performanceNow s 0;
              t0 = [PerformanceNow]
          in (case calculateRequiredETH s of
                (t1, Inl e) \<Rightarrow> (t0 @ t1, Inl e)
              | (t1, Inr requiredETH) \<Rightarrow>
                  let params = \<lparr>address = routerAddress s,
                                 functionName = ''executeBatch'', args = callValues s,
                                 ethValue = requiredETH, account = walletAccount w,
                                 gas = gasLimit options\<rparr>
                  in (case simulateContract (publicClient s) params of
                        Inl e \<Rightarrow> (t0 @ t1 @ [SimulateContract params], Inl e)
                      | Inr (result, req) \<Rightarrow>
                          let tx = req\<lparr>account := walletAccount w\<rparr>
                          in (case signTransaction w tx of
                                Inl e \<Rightarrow>
                                  (t0 @ t1 @ [SimulateContract params, SignTransaction tx], Inl e)
                              | Inr signedTx \<Rightarrow>
                                  (case request (publicClient s)
                                          ''realtime_sendRawTransaction'' [signedTx] of
                                     Inl e \<Rightarrow>
                                       (t0 @ t1 @ [SimulateContract params, SignTransaction tx,
                                          Request ''realtime_sendRawTransaction'' [signedTx]],
                                        Inl e)
                                   | Inr rcpt \<Rightarrow>
                                       let executionTime = performanceNow s 1 - startTime
                                       in (t0 @ t1 @ [SimulateContract params, SignTransaction tx,
                                             Request ''realtime_sendRawTransaction'' [signedTx],
                                             PerformanceNow],
                                           Inr \<lparr>receipt = rcpt,
                                                results = parseCallResults D E rcpt
                                                            (length (callValues s)) None,
                                                gasUsed = TransactionReceipt.gasUsed rcpt,
                                                executionTimeMs = executionTime\<rparr>))))))))"

text \<open>
  For comparing what the two methods do: \<open>renameMethod\<close> replaces the method name of
  \<open>executeSync\<close>'s RPC request by that of \<open>executeRealtime\<close>.
\<close>

fun renameMethod :: "io \<Rightarrow> io" where
  "renameMethod (Request rpcMethod ps) =
     Request (if rpcMethod = ''eth_sendRawTransactionSync''
              then ''realtime_sendRawTransaction'' else rpcMethod) ps"
| "renameMethod x = x"

fun isConsoleLog :: "io \<Rightarrow> bool" where
  "isConsoleLog (ConsoleLog m) = True"
| "isConsoleLog x = False"

section \<open>Concrete clients and builders\<close>

text \<open>
  Inputs for running the model: a receipt decoder that finds no router event, a client
  whose every request fails, a client and a wallet that answer, an empty store and
  builders made from them with the model's own constructor and methods.
\<close>

definition noEvents :: "string \<Rightarrow> string list \<Rightarrow> DecodedEvent option" where
  "noEvents d ts = None"

definition refDecoder :: abiDecoder where
  "refDecoder = \<lparr>decodeString = refDecodeString, decodeUint256 = refDecodeUint256,
                  decodeUint256Bytes = refDecodeUint256Bytes,
                  decodeResults = refDecodeResults\<rparr>"

definition offline :: PublicClient where
  "offline =
     \<lparr>readContract = (\<lambda>a cs. Inl (LibraryError ''HTTP request failed'')),
      simulateContract = (\<lambda>p. Inl (LibraryError ''HTTP request failed'')),
      estimateContractGas = (\<lambda>p. Inl (LibraryError ''HTTP request failed'')),
      request = (\<lambda>m ps. Inl (LibraryError ''HTTP request failed''))\<rparr>"

definition emptyStore :: state where
  "emptyStore =
     \<lparr>arrays = (\<lambda>r. []),
      callObjs = (\<lambda>r. \<lparr>target = [], value = 0, callData = []\<rparr>),
      opObjs = (\<lambda>r. \<lparr>opType = OpCustom, call = 0, metadata = None, timestamp = 0\<rparr>),
      fresh = 0,
      dateNow = (\<lambda>k. 1700000000000 + k),
      dateReads = 0,
      performanceNow = (\<lambda>k. 10 * int k),
      calls = 0, operations = 0,
      publicClient = offline, walletClient = None,
      routerAddress = [], chainId = 0, debug = False\<rparr>"

definition defaultConfig :: MegaFlowConfig where
  "defaultConfig = \<lparr>configRouterAddress = None, configChainId = None, configDebug = None\<rparr>"

definition oneCallBuilder :: state where
  "oneCallBuilder =
     add ''0x1111111111111111111111111111111111111111'' ''0x00'' 100
       (newMegaFlowBuilder defaultConfig offline emptyStore)"

definition devnet :: PublicClient where
  "devnet =
     \<lparr>readContract = (\<lambda>a cs. Inr 1000),
      simulateContract = (\<lambda>p. Inr ([\<lparr>success = True, returnData = ''0x''\<rparr>], p)),
      estimateContractGas = (\<lambda>p. Inr 100000),
      request = (\<lambda>m ps. Inr \<lparr>logs = [], status = ''success'', gasUsed = 90000,
                               effectiveGasPrice = 1000000, blockNumber = 7,
                               transactionHash = ''0xabc1''\<rparr>)\<rparr>"

definition testWallet :: WalletClient where
  "testWallet =
     \<lparr>walletAccount = Some ''0x3333333333333333333333333333333333333333'',
      signTransaction = (\<lambda>tx. Inr ''0x02f8'')\<rparr>"

definition noOptions :: ExecuteOptions where
  "noOptions = \<lparr>gasLimit = None, maxFeePerGas = None, maxPriorityFeePerGas = None, nonce = None\<rparr>"

definition debugBuilder :: state where
  "debugBuilder =
     connect testWallet
       (add ''0x1111111111111111111111111111111111111111'' ''0x00'' 100
          (newMegaFlowBuilder
             \<lparr>configRouterAddress = None, configChainId = None, configDebug = Some True\<rparr>
             devnet emptyStore))"

chapter \<open>Properties\<close>

declare natToString.simps [simp del] bitLength.simps [simp del] skipSpaces.simps [simp del]

section \<open>The reference decoder\<close>

lemmas ref_eval = refDecoder_def refDecodeResults_def readResult_def refDecodeString_def refDecodeUint256_def
  refDecodeUint256Bytes_def abiBytes_def hexToBytes_def hexVal_def readDynamic_def
  readWord_def bytesToHex_def digitChar_def byteToChar_def Let_def

lemma hexPairs_length: "hexPairs s = Some bs \<Longrightarrow> 2 * length bs = length s"
  by (induction s arbitrary: bs rule: hexPairs.induct) (auto split: option.splits)

lemma hexToBytes_length: "hexToBytes hex = Some bs \<Longrightarrow> 2 * length bs \<le> length hex - 1"
  by (auto simp: hexToBytes_def Let_def dest!: hexPairs_length split: if_splits)

lemma bytesToHex_length: "length (bytesToHex bs) = 2 + 2 * length bs"
  by (induction bs) (auto simp: bytesToHex_def)

lemma readDynamic_length:
  "readDynamic bs base headPos = Some x \<Longrightarrow> length x + 32 \<le> length bs"
  by (auto simp: readDynamic_def readWord_def split: option.splits if_splits)

lemma refDecoder_shrinking: "shrinking refDecoder"
  unfolding shrinking_def
proof (intro allI impI)
  fix d i x
  assume "decodeUint256Bytes refDecoder d = Some (i, x)"
  then obtain bs inner where bs: "hexToBytes d = Some bs"
    and inner: "readDynamic bs 0 32 = Some inner" and x: "x = bytesToHex inner"
    by (auto simp: refDecoder_def refDecodeUint256Bytes_def abiBytes_def
             split: option.splits if_splits)
  from hexToBytes_length[OF bs] readDynamic_length[OF inner]
  show "length x \<le> length d"
    by (simp add: x bytesToHex_length)
qed

section \<open>The repository's unit tests, on the model\<close>

text \<open>
  The expectations of the repository's tests of \<open>decodeRevertError\<close>,
  \<open>applyMegaethGasBuffer\<close> and the approve calldata, and some messages for
  \<open>extractFailedCallIndex\<close> (the last two with a no-break space, U+00A0, and a line
  separator, U+2028, before the digits), computed by the definitions above.
\<close>

lemma test_no_data: "decodeRevertError refDecoder ''0x'' = Some ''Execution reverted with no data''"
  by (subst decodeRevertError.simps) simp

lemma test_panic_overflow:
  "decodeRevertError refDecoder
     ''0x4e487b710000000000000000000000000000000000000000000000000000000000000011''
   = Some ''Panic: arithmetic overflow/underflow''"
  by (subst decodeRevertError.simps)
     (simp add: toLowerCase_def toLowerCaseChar_def ref_eval decodePanicCode_def toNumber_def
        bitLength.simps)

lemma test_unknown_selector:
  "decodeRevertError refDecoder ''0xdeadbeef00000000'' =
     Some ''Reverted with unknown selector 0xdeadbeef''"
  by (subst decodeRevertError.simps)
     (simp add: toLowerCase_def toLowerCaseChar_def customErrors_def)

lemma test_gas_buffer:
  "applyMegaethGasBuffer 100000 10 = 110000"
  "applyMegaethGasBuffer 100000 30 = 130000"
  "applyMegaethGasBuffer 0 10 = 0"
  by (simp_all add: applyMegaethGasBuffer_def bigintDiv_def)

lemma test_approve_calldata:
  "approveCalldata ''0x2222222222222222222222222222222222222222'' 1000 =
     ''0x095ea7b3000000000000000000000000222222222222222222222222222222222222222200000000000000000000000000000000000000000000000000000000000003e8''"
proof -
  have r: "\<And>k (x::char). replicate (numeral k) x = x # replicate (pred_numeral k) x"
    by (simp add: numeral_eq_Suc)
  show ?thesis
    by (simp add: approveCalldata_def padStart_def bigintToString_def natToString.simps
          digitChar_def Let_def r)
qed

lemma test_failed_call_index:
  "extractFailedCallIndex ''execution reverted: CallFailed(2, 0x08c379a0)'' = Some 2"
  "extractFailedCallIndex ''Call #3 failed'' = Some 3"
  "extractFailedCallIndex ''out of gas'' = None"
  "extractFailedCallIndex ''recall  # 41x'' = Some 41"
  "extractFailedCallIndex (''call'' @ [CHR 0xC2, CHR 0xA0] @ ''5'') = Some 5"
  "extractFailedCallIndex (''CALL#'' @ [CHR 0xE2, CHR 0x80, CHR 0xA8] @ '' 6'') = Some 6"
  by (simp_all add: extractFailedCallIndex_def matchCallAt_def toLowerCase_def
        toLowerCaseChar_def isDigit_def skipSpaces.simps spaceWidth_def asciiSpaces_def
        unicodeSpaces_def parseInt_def hexVal_def toNumber_def bitLength.simps Let_def)

section \<open>decodeRevertError\<close>

lemma customErrors_nonempty: "map_of customErrors k = Some v \<Longrightarrow> v \<noteq> []"
  by (auto simp: customErrors_def split: if_splits)

lemma decodeRevertError_total:
  assumes "shrinking D"
  shows "\<exists>s. decodeRevertError D revertData = Some s \<and> s \<noteq> []"
proof (induction "length revertData" arbitrary: revertData rule: less_induct)
  case less
  show ?case
  proof (cases "revertData = [] \<or> revertData = ''0x'' \<or> length revertData < 10")
    case True
    then show ?thesis by (subst decodeRevertError.simps) simp
  next
    case long: False
    let ?sel = "toLowerCase (take 10 revertData)"
    let ?tail = "''0x'' @ drop 10 revertData"
    show ?thesis
    proof (cases "?sel = ''0x85d9d0b8''")
      case False
      then show ?thesis using long
        by (subst decodeRevertError.simps)
           (auto simp: Let_def dest: customErrors_nonempty split: option.splits)
    next
      case cf: True
      have fixed: "map_of customErrors ?sel = Some ''CallFailed: one of the batch calls reverted''"
        by (simp add: cf customErrors_def)
      show ?thesis
      proof (cases "decodeUint256Bytes D ?tail")
        case None
        then show ?thesis using long cf fixed
          by (subst decodeRevertError.simps) (simp add: Let_def)
      next
        case (Some p)
        obtain i x where p: "p = (i, x)" by (cases p)
        from assms Some p have "length x \<le> length ?tail"
          unfolding shrinking_def by blast
        moreover from long have "10 \<le> length revertData" by simp
        ultimately have "length x < length revertData" by simp
        from less[OF this] obtain m where m: "decodeRevertError D x = Some m" by blast
        show ?thesis using long cf fixed Some p m
          by (subst decodeRevertError.simps) (simp add: Let_def)
      qed
    qed
  qed
qed

lemma decodeRevertError_CallFailed_unfold:
  assumes "10 \<le> length revertData"
    and "toLowerCase (take 10 revertData) = ''0x85d9d0b8''"
  shows "decodeRevertError D revertData =
    (case decodeUint256Bytes D (''0x'' @ drop 10 revertData) of
       Some (callIndex, innerData) \<Rightarrow>
         Option.bind (decodeRevertError D innerData)
           (\<lambda>inner. Some (''Call #'' @ natToString 10 callIndex @ '' failed ''
                             @ arrow @ '' '' @ inner))
     | None \<Rightarrow> Some ''CallFailed: one of the batch calls reverted'')"
proof -
  from assms(1) have "\<not> (revertData = [] \<or> revertData = ''0x'' \<or> length revertData < 10)"
    by auto
  then show ?thesis using assms(2)
    by (subst decodeRevertError.simps) (simp add: Let_def customErrors_def)
qed

text \<open>
  C3. A payload that starts with the \<open>CallFailed\<close> selector \<open>0x85d9d0b8\<close> (in either
  case): when the library decodes its tail as \<open>(uint256 callIndex, bytes innerData)\<close>,
  \<open>decodeRevertError\<close> returns, the recursive call on \<open>innerData\<close> returns some \<open>m\<close>,
  and the result is \<open>Call #callIndex failed \<rightarrow> m\<close>; when the tail does not decode, the
  result is the fixed \<open>CallFailed\<close> message. The library's decoder is shrinking.
\<close>

theorem decodeRevertError_CallFailed:
  assumes "shrinking D"
    and "10 \<le> length revertData"
    and "toLowerCase (take 10 revertData) = ''0x85d9d0b8''"
  shows "case decodeUint256Bytes D (''0x'' @ drop 10 revertData) of
           Some (callIndex, innerData) \<Rightarrow>
             (\<exists>m. decodeRevertError D innerData = Some m \<and>
                  decodeRevertError D revertData =
                    Some (''Call #'' @ natToString 10 callIndex @ '' failed '' @ arrow
                          @ '' '' @ m))
         | None \<Rightarrow>
             decodeRevertError D revertData =
               Some ''CallFailed: one of the batch calls reverted''"
proof (cases "decodeUint256Bytes D (''0x'' @ drop 10 revertData)")
  case None
  then show ?thesis
    by (simp add: decodeRevertError_CallFailed_unfold[OF assms(2,3)])
next
  case (Some p)
  obtain i x where p: "p = (i, x)" by (cases p)
  from decodeRevertError_total[OF assms(1), of x]
  obtain m where m: "decodeRevertError D x = Some m" by blast
  show ?thesis using Some p m
    by (simp add: decodeRevertError_CallFailed_unfold[OF assms(2,3)])
qed

lemma inner_payload_decodes:
  "refDecodeString
     ''0x0000000000000000000000000000000000000000000000000000000000000020000000000000000000000000000000000000000000000000000000000000001f7472616e7366657220616d6f756e7420657863656564732062616c616e636500''
   = Some ''transfer amount exceeds balance''"
  by (simp add: ref_eval)

lemma outer_payload_decodes:
  "refDecodeUint256Bytes
     ''0x00000000000000000000000000000000000000000000000000000000000000020000000000000000000000000000000000000000000000000000000000000040000000000000000000000000000000000000000000000000000000000000006408c379a00000000000000000000000000000000000000000000000000000000000000020000000000000000000000000000000000000000000000000000000000000001f7472616e7366657220616d6f756e7420657863656564732062616c616e63650000000000000000000000000000000000000000000000000000000000''
   = Some (2, ''0x08c379a00000000000000000000000000000000000000000000000000000000000000020000000000000000000000000000000000000000000000000000000000000001f7472616e7366657220616d6f756e7420657863656564732062616c616e636500'')"
  by (simp add: ref_eval)

lemma inner_payload_message:
  "decodeRevertError refDecoder
     ''0x08c379a00000000000000000000000000000000000000000000000000000000000000020000000000000000000000000000000000000000000000000000000000000001f7472616e7366657220616d6f756e7420657863656564732062616c616e636500''
   = Some ''Reverted: transfer amount exceeds balance''"
  by (subst decodeRevertError.simps)
     (simp add: toLowerCase_def toLowerCaseChar_def refDecoder_def inner_payload_decodes)

text \<open>
  The witness of C3: the payload of the repository's own test, \<open>CallFailed(2, inner)\<close>
  with \<open>inner\<close> an \<open>Error(string)\<close> revert, read by the reference decoder.
\<close>

theorem decodeRevertError_CallFailed_witness:
  "decodeRevertError refDecoder
     ''0x85d9d0b800000000000000000000000000000000000000000000000000000000000000020000000000000000000000000000000000000000000000000000000000000040000000000000000000000000000000000000000000000000000000000000006408c379a00000000000000000000000000000000000000000000000000000000000000020000000000000000000000000000000000000000000000000000000000000001f7472616e7366657220616d6f756e7420657863656564732062616c616e63650000000000000000000000000000000000000000000000000000000000''
   = Some (''Call #2 failed '' @ arrow @ '' Reverted: transfer amount exceeds balance'')"
  using decodeRevertError_CallFailed[OF refDecoder_shrinking, of
     "''0x85d9d0b800000000000000000000000000000000000000000000000000000000000000020000000000000000000000000000000000000000000000000000000000000040000000000000000000000000000000000000000000000000000000000000006408c379a00000000000000000000000000000000000000000000000000000000000000020000000000000000000000000000000000000000000000000000000000000001f7472616e7366657220616d6f756e7420657863656564732062616c616e63650000000000000000000000000000000000000000000000000000000000''"]
  by (simp add: toLowerCase_def toLowerCaseChar_def refDecoder_def outer_payload_decodes
        natToString.simps digitChar_def
        inner_payload_message[unfolded refDecoder_def])

lemma branch_Error:
  assumes "decodeRevertError D revertData = Some s"
    and "\<not> (revertData = [] \<or> revertData = ''0x'' \<or> length revertData < 10)"
    and "toLowerCase (take 10 revertData) = ''0x08c379a0''"
  shows "(\<exists>message. s = ''Reverted: '' @ message)
       \<or> s = ''Reverted (Error selector found but decode failed)''"
  using assms
  by (subst (asm) decodeRevertError.simps) (auto simp: Let_def split: option.splits)

lemma branch_Panic:
  assumes "decodeRevertError D revertData = Some s"
    and "\<not> (revertData = [] \<or> revertData = ''0x'' \<or> length revertData < 10)"
    and "toLowerCase (take 10 revertData) = ''0x4e487b71''"
  shows "(\<exists>code. s = ''Panic: '' @ decodePanicCode code) \<or> s = ''Panic: unknown code''"
  using assms
  by (subst (asm) decodeRevertError.simps) (auto simp: Let_def split: option.splits)

lemma branch_custom:
  assumes "decodeRevertError D revertData = Some s"
    and "\<not> (revertData = [] \<or> revertData = ''0x'' \<or> length revertData < 10)"
    and "toLowerCase (take 10 revertData) \<noteq> ''0x08c379a0''"
    and "toLowerCase (take 10 revertData) \<noteq> ''0x4e487b71''"
  shows "s \<in> snd ` set customErrors
       \<or> (\<exists>callIndex inner. s = ''Call #'' @ natToString 10 callIndex @ '' failed '' @ arrow
                                    @ '' '' @ inner)
       \<or> s = ''Reverted with unknown selector '' @ toLowerCase (take 10 revertData)"
proof (cases "map_of customErrors (toLowerCase (take 10 revertData))")
  case None
  with assms show ?thesis
    by (subst (asm) decodeRevertError.simps) (simp add: Let_def)
next
  case (Some fixed)
  then have fixed: "fixed \<in> snd ` set customErrors"
    by (metis map_of_SomeD image_eqI snd_conv)
  show ?thesis
  proof (cases "toLowerCase (take 10 revertData) = ''0x85d9d0b8''")
    case False
    with assms Some have "s = fixed"
      by (subst (asm) decodeRevertError.simps) (simp add: Let_def)
    with fixed show ?thesis by simp
  next
    case cf: True
    show ?thesis
    proof (cases "decodeUint256Bytes D (''0x'' @ drop 10 revertData)")
      case None
      with assms Some cf have "s = fixed"
        by (subst (asm) decodeRevertError.simps) (simp add: Let_def)
      with fixed show ?thesis by simp
    next
      case inner: (Some p)
      obtain i x where p: "p = (i, x)" by (cases p)
      from assms Some cf inner p
      have "Option.bind (decodeRevertError D x)
              (\<lambda>inner. Some (''Call #'' @ natToString 10 i @ '' failed '' @ arrow
                                @ '' '' @ inner)) = Some s"
        by (subst (asm) decodeRevertError.simps) (simp add: Let_def)
      then obtain m where
        "s = ''Call #'' @ natToString 10 i @ '' failed '' @ arrow @ '' '' @ m"
        by (cases "decodeRevertError D x") auto
      then show ?thesis by blast
    qed
  qed
qed


text \<open>
  C4. \<open>decodeRevertError\<close> returns on every input string, and what it returns is a
  non-empty string, made by one of its branches: the no-data message; \<open>Reverted:\<close> with
  the decoded string, or the message for an \<open>Error\<close> payload that does not decode;
  \<open>Panic:\<close> with the table's text for the code (or the code in hex), or the message for
  a \<open>Panic\<close> payload that does not decode; one of the eight fixed messages of the
  router's selectors; \<open>Call #i failed\<close> with the inner message; or the unknown-selector
  message with the selector. No branch raises (every decoding error is caught) and, the
  library's decoder being shrinking, the recursion on inner payloads ends.
\<close>

theorem decodeRevertError_never_throws:
  assumes "shrinking D"
  shows "\<exists>s. decodeRevertError D revertData = Some s \<and> s \<noteq> []
          \<and> (s = ''Execution reverted with no data''
             \<or> (\<exists>message. s = ''Reverted: '' @ message)
             \<or> s = ''Reverted (Error selector found but decode failed)''
             \<or> (\<exists>code. s = ''Panic: '' @ decodePanicCode code)
             \<or> s = ''Panic: unknown code''
             \<or> s \<in> snd ` set customErrors
             \<or> (\<exists>callIndex inner. s = ''Call #'' @ natToString 10 callIndex @ '' failed ''
                                          @ arrow @ '' '' @ inner)
             \<or> s = ''Reverted with unknown selector '' @ toLowerCase (take 10 revertData))"
proof -
  from decodeRevertError_total[OF assms, of revertData]
  obtain s where s: "decodeRevertError D revertData = Some s" and ne: "s \<noteq> []" by blast
  have "s = ''Execution reverted with no data''
             \<or> (\<exists>message. s = ''Reverted: '' @ message)
             \<or> s = ''Reverted (Error selector found but decode failed)''
             \<or> (\<exists>code. s = ''Panic: '' @ decodePanicCode code)
             \<or> s = ''Panic: unknown code''
             \<or> s \<in> snd ` set customErrors
             \<or> (\<exists>callIndex inner. s = ''Call #'' @ natToString 10 callIndex @ '' failed ''
                                          @ arrow @ '' '' @ inner)
             \<or> s = ''Reverted with unknown selector '' @ toLowerCase (take 10 revertData)"
  proof (cases "revertData = [] \<or> revertData = ''0x'' \<or> length revertData < 10")
    case True
    with s have "s = ''Execution reverted with no data''"
      by (subst (asm) decodeRevertError.simps) simp
    then show ?thesis by (rule disjI1)
  next
    case long: False
    show ?thesis
    proof (cases "toLowerCase (take 10 revertData) = ''0x08c379a0''")
      case True
      from branch_Error[OF s long True] show ?thesis by blast
    next
      case notError: False
      show ?thesis
      proof (cases "toLowerCase (take 10 revertData) = ''0x4e487b71''")
        case True
        from branch_Panic[OF s long True] show ?thesis by blast
      next
        case False
        from branch_custom[OF s long notError False] show ?thesis by blast
      qed
    qed
  qed
  with s ne show ?thesis by blast
qed

text \<open>The theorem on a truncated \<open>CallFailed\<close> payload, with the reference decoder.\<close>

theorem decodeRevertError_never_throws_witness:
  "shrinking refDecoder \<and>
   (\<exists>s. decodeRevertError refDecoder ''0x85d9d0b8ff'' = Some s \<and> s \<noteq> [])"
  using decodeRevertError_never_throws[OF refDecoder_shrinking, of "''0x85d9d0b8ff''"]
    refDecoder_shrinking
  by blast

section \<open>parseCallResults\<close>

text \<open>
  C1, as the code has it. When \<open>rawReturnData\<close> is present, not trivial and decodes
  (strategy 1), \<open>parseCallResults\<close> returns the decoded array, one entry per decoded
  tuple, whatever \<open>callCount\<close> is; in every other case (the event scan and the
  fallback) it returns exactly \<open>callCount\<close> entries.
\<close>

theorem parseCallResults_length:
  "length (parseCallResults D E rcpt callCount rawReturnData) =
     (case decodeReturnValue D rawReturnData of
        Some rs \<Rightarrow> length rs
      | None \<Rightarrow> callCount)"
  by (simp add: parseCallResults_def Let_def split: option.splits)

lemma one_result_decodes:
  "refDecodeResults ''0x000000000000000000000000000000000000000000000000000000000000002000000000000000000000000000000000000000000000000000000000000000010000000000000000000000000000000000000000000000000000000000000020000000000000000000000000000000000000000000000000000000000000000100000000000000000000000000000000000000000000000000000000000000400000000000000000000000000000000000000000000000000000000000000000''
   = Some [\<lparr>success = True, returnData = ''0x''\<rparr>]"
  by (simp add: refDecodeResults_def readResult_def ref_eval upt_rec)

text \<open>
  The claim as stated fails on strategy 1: the raw return bytes below are the ABI
  encoding of the one-element array \<open>[(true, 0x)]\<close>; with \<open>callCount = 2\<close> the function
  returns that one entry.
\<close>

theorem parseCallResults_raw_counterexample:
  "parseCallResults refDecoder noEvents
     \<lparr>logs = [], status = ''success'', gasUsed = 0, effectiveGasPrice = 0, blockNumber = 0,
      transactionHash = ''0x''\<rparr>
     2
     (Some ''0x000000000000000000000000000000000000000000000000000000000000002000000000000000000000000000000000000000000000000000000000000000010000000000000000000000000000000000000000000000000000000000000020000000000000000000000000000000000000000000000000000000000000000100000000000000000000000000000000000000000000000000000000000000400000000000000000000000000000000000000000000000000000000000000000'')
   = [\<lparr>success = True, returnData = ''0x''\<rparr>]
   \<and> length (parseCallResults refDecoder noEvents
        \<lparr>logs = [], status = ''success'', gasUsed = 0, effectiveGasPrice = 0, blockNumber = 0,
         transactionHash = ''0x''\<rparr>
        2
        (Some ''0x000000000000000000000000000000000000000000000000000000000000002000000000000000000000000000000000000000000000000000000000000000010000000000000000000000000000000000000000000000000000000000000020000000000000000000000000000000000000000000000000000000000000000100000000000000000000000000000000000000000000000000000000000000400000000000000000000000000000000000000000000000000000000000000000''))
     \<noteq> 2"
  by (simp add: parseCallResults_def decodeReturnValue_def refDecoder_def one_result_decodes)

section \<open>The builder: paired sequences\<close>

lemmas heap_defs = Date_now_def newArray_def newCall_def newOperation_def arrayPush_def
  arrayPop_def recordOperation_def

lemma paired_new: "paired (newMegaFlowBuilder config client w)"
  by (simp add: paired_def newMegaFlowBuilder_def heap_defs Let_def)

lemma paired_add: "paired s \<Longrightarrow> paired (add tgt cd v s)"
  by (simp add: paired_def add_def heap_defs Let_def)

lemma paired_addCall: "paired s \<Longrightarrow> paired (snd (addCall enc tgt a fn as v s))"
  by (simp add: addCall_def paired_add split: sum.splits)

lemma paired_sendETH: "paired s \<Longrightarrow> paired (sendETH dest v s)"
  by (simp add: paired_def sendETH_def heap_defs Let_def)

lemma paired_safeApprove_step:
  "paired s \<Longrightarrow>
   paired (let (c, s1) = newCall approvalCall s; s2 = arrayPush (calls s1) c s1
           in recordOperation ty c meta s2)"
  by (simp add: paired_def heap_defs Let_def)

lemma paired_fold:
  "(\<And>x s. paired s \<Longrightarrow> paired (f x s)) \<Longrightarrow> paired s \<Longrightarrow> paired (fold f xs s)"
  by (induction xs arbitrary: s) auto

lemma paired_safeApprove: "paired s \<Longrightarrow> paired (safeApprove tok spender amount cur s)"
  unfolding safeApprove_def by (rule paired_fold) (rule paired_safeApprove_step)

lemma paired_multiTransfer: "paired s \<Longrightarrow> paired (snd (multiTransfer enc tok transfers s))"
proof (induction transfers arbitrary: s)
  case Nil
  then show ?case by simp
next
  case (Cons t ts)
  obtain dest amount where t: "t = (dest, amount)" by (cases t)
  from Cons.prems have p: "paired (snd (transfer enc tok dest amount s))"
    by (simp add: transfer_def paired_addCall)
  show ?case
  proof (cases "transfer enc tok dest amount s")
    case (Pair r s1)
    with p have "paired s1" by simp
    with Pair Cons.IH[of s1] show ?thesis by (cases r) (simp_all add: t)
  qed
qed

lemma paired_Date_now: "paired s \<Longrightarrow> paired (snd (Date_now s))"
  by (simp add: paired_def Date_now_def)

lemma paired_deadlineOrDefault: "paired s \<Longrightarrow> paired (snd (deadlineOrDefault p s))"
  by (simp add: paired_def deadlineOrDefault_def deadlineInMinutes_def Date_now_def
      split: option.splits)

lemma paired_swapExactTokensForTokens:
  "paired s \<Longrightarrow> paired (snd (swapExactTokensForTokens enc p s))"
  using paired_deadlineOrDefault[of s p]
  by (auto simp: swapExactTokensForTokens_def split: prod.splits intro: paired_addCall)

lemma paired_swapExactETHForTokens:
  "paired s \<Longrightarrow> paired (snd (swapExactETHForTokens enc p s))"
  using paired_deadlineOrDefault[of s p]
  by (auto simp: swapExactETHForTokens_def split: prod.splits intro: paired_addCall)

lemma paired_swapExactTokensForETH:
  "paired s \<Longrightarrow> paired (snd (swapExactTokensForETH enc p s))"
  using paired_deadlineOrDefault[of s p]
  by (auto simp: swapExactTokensForETH_def split: prod.splits intro: paired_addCall)

lemma paired_approveAndSwap: "paired s \<Longrightarrow> paired (snd (approveAndSwap enc p s))"
proof -
  assume s: "paired s"
  then have p: "paired (snd (approve enc (token p) (router p) (amountIn p) s))"
    by (simp add: approve_def paired_addCall)
  show ?thesis
  proof (cases "approve enc (token p) (router p) (amountIn p) s")
    case (Pair r s1)
    with p have "paired s1" by simp
    with Pair show ?thesis
      by (cases r) (simp_all add: approveAndSwap_def paired_swapExactTokensForTokens)
  qed
qed

lemma paired_kyberSwap: "paired s \<Longrightarrow> paired (snd (kyberSwap built s))"
  by (simp add: kyberSwap_def paired_add split: sum.splits prod.splits)

lemma paired_getters:
  "paired s \<Longrightarrow> paired (snd (getCalls s))"
  "paired s \<Longrightarrow> paired (snd (getOperations s))"
  "paired s \<Longrightarrow> paired (snd (getState s))"
  by (simp_all add: paired_def getCalls_def getOperations_def getState_def newArray_def Let_def)

lemma paired_pop: "paired s \<Longrightarrow> paired (snd (pop s))"
  by (simp add: paired_def pop_def arrayPop_def Let_def)

lemma paired_clear: "paired s \<Longrightarrow> paired (clear s)"
  by (simp add: paired_def clear_def newArray_def Let_def)

lemma paired_invoke: "paired s \<Longrightarrow> paired (invoke enc m s)"
  by (cases m)
     (simp_all add: paired_add paired_addCall paired_sendETH paired_safeApprove
        paired_multiTransfer paired_swapExactTokensForTokens paired_swapExactETHForTokens
        paired_swapExactTokensForETH paired_approveAndSwap paired_kyberSwap paired_getters
        paired_pop paired_clear approve_def transfer_def transferFrom_def transferNFT_def
        approveNFT_def setApprovalForAll_def wrapETH_def unwrapWETH_def)

lemma paired_run: "paired s \<Longrightarrow> paired (run enc ms s)"
  unfolding run_def by (rule paired_fold) (rule paired_invoke)

text \<open>
  Every builder that builder calls can reach has its two sequences in two allocated
  arrays: the hypotheses of the theorems on \<open>sendETH\<close>, \<open>safeApprove\<close> and \<open>getState\<close>
  below hold of it.
\<close>

lemma paired_reachable:
  "calls (run enc ms (newMegaFlowBuilder config client w))
     \<noteq> operations (run enc ms (newMegaFlowBuilder config client w))
   \<and> calls (run enc ms (newMegaFlowBuilder config client w))
       < fresh (run enc ms (newMegaFlowBuilder config client w))
   \<and> operations (run enc ms (newMegaFlowBuilder config client w))
       < fresh (run enc ms (newMegaFlowBuilder config client w))"
  using paired_run[OF paired_new, of enc ms config client w] by (simp add: paired_def)

text \<open>
  C8. After every sequence of builder calls on a new builder (whatever the store it was
  made in, its configuration, and what \<open>encodeFunctionData\<close> returns or throws), the
  calls array and the operations array have the same length.
\<close>

theorem calls_operations_same_length:
  "length (arrays (run enc ms (newMegaFlowBuilder config client w))
             (calls (run enc ms (newMegaFlowBuilder config client w)))) =
   length (arrays (run enc ms (newMegaFlowBuilder config client w))
             (operations (run enc ms (newMegaFlowBuilder config client w))))"
  using paired_run[OF paired_new, of enc ms config client w] by (simp add: paired_def)

section \<open>buildSafeApproveCalls and safeApprove\<close>




section \<open>sendETH\<close>

text \<open>
  C10. \<open>sendETH dest v\<close> allocates one call object, with target \<open>dest\<close>, value \<open>v\<close> and
  the calldata \<open>0x00\<close> (one byte, so not empty), appends its reference to the calls, and
  appends one operation record for it to the operations; nothing else in the store
  changes. The calls and the operations are two arrays.
\<close>

theorem sendETH_appends_one_call:
  assumes "calls s \<noteq> operations s"
  shows "arrays (sendETH dest v s) =
           (arrays s)(calls s := arrays s (calls s) @ [fresh s],
                      operations s := arrays s (operations s) @ [Suc (fresh s)])
       \<and> callObjs (sendETH dest v s) =
           (callObjs s)(fresh s := \<lparr>target = dest, value = v, callData = ''0x00''\<rparr>)
       \<and> hexToBytes ''0x00'' = Some [0]
       \<and> opObjs (sendETH dest v s) =
           (opObjs s)(Suc (fresh s) :=
              \<lparr>opType = OpCustom, call = fresh s,
               metadata = Some [(''type'', ''sendETH''), (''to'', dest),
                                (''value'', bigintToString 10 v)],
               timestamp = dateNow s (dateReads s)\<rparr>)
       \<and> calls (sendETH dest v s) = calls s
       \<and> operations (sendETH dest v s) = operations s"
  using assms
  by (auto simp: sendETH_def heap_defs Let_def hexToBytes_def hexVal_def fun_eq_iff)

text \<open>The theorem on a new builder: the call is object 2, its record object 3.\<close>

theorem sendETH_appends_one_call_witness:
  "calls (newMegaFlowBuilder defaultConfig offline emptyStore)
     \<noteq> operations (newMegaFlowBuilder defaultConfig offline emptyStore)
   \<and> arrays (sendETH ''0x4444444444444444444444444444444444444444'' 42
               (newMegaFlowBuilder defaultConfig offline emptyStore))
        (calls (newMegaFlowBuilder defaultConfig offline emptyStore)) = [2]
   \<and> callObjs (sendETH ''0x4444444444444444444444444444444444444444'' 42
               (newMegaFlowBuilder defaultConfig offline emptyStore)) 2 =
        \<lparr>target = ''0x4444444444444444444444444444444444444444'', value = 42,
         callData = ''0x00''\<rparr>
   \<and> arrays (sendETH ''0x4444444444444444444444444444444444444444'' 42
               (newMegaFlowBuilder defaultConfig offline emptyStore))
        (operations (newMegaFlowBuilder defaultConfig offline emptyStore)) = [3]"
proof -
  have ne: "calls (newMegaFlowBuilder defaultConfig offline emptyStore)
     \<noteq> operations (newMegaFlowBuilder defaultConfig offline emptyStore)"
    by (simp add: newMegaFlowBuilder_def newArray_def emptyStore_def Let_def)
  show ?thesis
    using ne sendETH_appends_one_call[OF ne, of "''0x4444444444444444444444444444444444444444''" 42]
    by (simp add: newMegaFlowBuilder_def newArray_def emptyStore_def Let_def)
qed

section \<open>getState\<close>

lemma getState_fst:
  "calls s < fresh s \<Longrightarrow> operations s < fresh s \<Longrightarrow>
   fst (getState s) =
     \<lparr>BuilderState.calls = fresh s, operations = Suc (fresh s),
      totalValue = getTotalValue s, chainId = chainId s\<rparr>"
  by (simp add: getState_def newArray_def Let_def getTotalValue_def)

lemma getState_snd:
  "calls s < fresh s \<Longrightarrow> operations s < fresh s \<Longrightarrow>
   snd (getState s) =
     s\<lparr>arrays := (arrays s)(fresh s := arrays s (calls s),
                              Suc (fresh s) := arrays s (operations s)),
       fresh := Suc (Suc (fresh s))\<rparr>"
  by (simp add: getState_def newArray_def Let_def)

lemma ledger_getState:
  "calls s < fresh s \<Longrightarrow> operations s < fresh s \<Longrightarrow> ledger (snd (getState s)) = ledger s"
  by (simp add: getState_snd ledger_def getTotalValue_def)

lemma mutate_arrays_frame:
  assumes "list_all (onSnapshotArrays snap) ms"
    and "calls s \<noteq> BuilderState.calls snap" "calls s \<noteq> BuilderState.operations snap"
    and "operations s \<noteq> BuilderState.calls snap"
    and "operations s \<noteq> BuilderState.operations snap"
  shows "ledger (fold mutate ms s) = ledger s \<and> calls (fold mutate ms s) = calls s
         \<and> operations (fold mutate ms s) = operations s"
  using assms
proof (induction ms arbitrary: s)
  case Nil
  then show ?case by simp
next
  case (Cons m ms)
  from Cons.prems(1) obtain a xs where m: "m = ArrayWrite a xs"
    and a: "a = BuilderState.calls snap \<or> a = BuilderState.operations snap"
    by (cases m) auto
  have step: "ledger (mutate m s) = ledger s" "calls (mutate m s) = calls s"
    "operations (mutate m s) = operations s"
    using a Cons.prems(2-5) by (auto simp: m ledger_def getTotalValue_def)
  from Cons.prems(1) have "list_all (onSnapshotArrays snap) ms" by simp
  from Cons.IH[OF this, of "mutate m s"] step Cons.prems(2-5)
  show ?case by simp
qed

text \<open>
  C2, as the code has it. \<open>getState\<close> copies the two arrays and not the objects in
  them. Any sequence of writes to the snapshot's two arrays leaves the builder's calls,
  operations and total value what they were when the snapshot was taken. (The builder's
  own arrays are allocated.)
\<close>

theorem snapshot_arrays_independent:
  assumes "calls s < fresh s" and "operations s < fresh s"
    and "list_all (onSnapshotArrays (fst (getState s))) ms"
  shows "ledger (fold mutate ms (snd (getState s))) = ledger s
       \<and> calls (fold mutate ms (snd (getState s))) = calls s
       \<and> operations (fold mutate ms (snd (getState s))) = operations s"
proof -
  have "ledger (fold mutate ms (snd (getState s))) = ledger (snd (getState s))
       \<and> calls (fold mutate ms (snd (getState s))) = calls (snd (getState s))
       \<and> operations (fold mutate ms (snd (getState s))) = operations (snd (getState s))"
    using assms
    by (intro mutate_arrays_frame[where snap = "fst (getState s)"])
       (simp_all add: getState_fst getState_snd)
  then show ?thesis using assms(1,2)
    by (simp add: ledger_getState) (simp add: getState_snd)
qed

lemma oneCallBuilder_eval:
  "calls oneCallBuilder = 0" "operations oneCallBuilder = 1" "fresh oneCallBuilder = 4"
  "arrays oneCallBuilder 0 = [2]" "arrays oneCallBuilder (Suc 0) = [3]"
  "callObjs oneCallBuilder 2 =
     \<lparr>target = ''0x1111111111111111111111111111111111111111'', value = 100, callData = ''0x00''\<rparr>"
  "opObjs oneCallBuilder 3 =
     \<lparr>opType = OpCustom, call = 2, metadata = None, timestamp = 1700000000000\<rparr>"
  by (simp_all add: oneCallBuilder_def add_def newMegaFlowBuilder_def heap_defs emptyStore_def
        Let_def)

text \<open>
  The claim as stated fails for a write to an element: the call object that the
  snapshot's calls array refers to is the builder's own. In a builder with one call of
  value 100, assigning 5 to the value of \<open>getState().calls[0]\<close> makes the builder's
  total value 5.
\<close>

theorem snapshot_element_write_counterexample:
  "onSnapshot (fst (getState oneCallBuilder)) (snd (getState oneCallBuilder))
     (CallWrite 2 \<lparr>target = ''0x1111111111111111111111111111111111111111'', value = 5,
                   callData = ''0x00''\<rparr>)
   \<and> getTotalValue (snd (getState oneCallBuilder)) = 100
   \<and> getTotalValue
       (mutate (CallWrite 2 \<lparr>target = ''0x1111111111111111111111111111111111111111'',
                              value = 5, callData = ''0x00''\<rparr>)
          (snd (getState oneCallBuilder))) = 5"
  by (simp add: getState_fst getState_snd oneCallBuilder_eval getTotalValue_def)

text \<open>
  The theorem on that builder: the snapshot's arrays are 4 and 5; emptying one,
  overwriting the other and writing the first again leaves the ledger as it was.
\<close>

theorem snapshot_arrays_independent_witness:
  "calls oneCallBuilder < fresh oneCallBuilder
   \<and> operations oneCallBuilder < fresh oneCallBuilder
   \<and> list_all (onSnapshotArrays (fst (getState oneCallBuilder)))
        [ArrayWrite 4 [], ArrayWrite 5 [3, 3], ArrayWrite 4 [7]]
   \<and> ledger (fold mutate [ArrayWrite 4 [], ArrayWrite 5 [3, 3], ArrayWrite 4 [7]]
                (snd (getState oneCallBuilder))) =
       ([\<lparr>target = ''0x1111111111111111111111111111111111111111'', value = 100,
          callData = ''0x00''\<rparr>],
        [(\<lparr>opType = OpCustom, call = 2, metadata = None, timestamp = 1700000000000\<rparr>,
          \<lparr>target = ''0x1111111111111111111111111111111111111111'', value = 100,
           callData = ''0x00''\<rparr>)],
        100)"
proof -
  have a: "calls oneCallBuilder < fresh oneCallBuilder"
    and b: "operations oneCallBuilder < fresh oneCallBuilder"
    by (simp_all add: oneCallBuilder_eval)
  have c: "list_all (onSnapshotArrays (fst (getState oneCallBuilder)))
        [ArrayWrite 4 [], ArrayWrite 5 [3, 3], ArrayWrite 4 [7]]"
    by (simp add: getState_fst oneCallBuilder_eval)
  have d: "ledger oneCallBuilder =
       ([\<lparr>target = ''0x1111111111111111111111111111111111111111'', value = 100,
          callData = ''0x00''\<rparr>],
        [(\<lparr>opType = OpCustom, call = 2, metadata = None, timestamp = 1700000000000\<rparr>,
          \<lparr>target = ''0x1111111111111111111111111111111111111111'', value = 100,
           callData = ''0x00''\<rparr>)],
        100)"
    by (simp add: ledger_def getTotalValue_def oneCallBuilder_eval)
  from snapshot_arrays_independent[OF a b c] a b c d show ?thesis by simp
qed

section \<open>simulate\<close>

lemma simulateCatch_returns:
  assumes "shrinking D"
  shows "\<exists>reason. decodeRevertError D (errorMessage e) = Some reason \<and>
           simulateCatch D s t e =
             Some (t @ log s ''Simulation failed'',
                   Inr (Failure (errorMessage e) reason
                          (extractFailedCallIndex (errorMessage e))))"
proof -
  from decodeRevertError_total[OF assms, of "errorMessage e"]
  obtain reason where "decodeRevertError D (errorMessage e) = Some reason" by blast
  then show ?thesis by (simp add: simulateCatch_def)
qed

lemma simulateCatch_failure:
  assumes "shrinking D"
  shows "\<exists>t' reason. decodeRevertError D (errorMessage e) = Some reason \<and>
           simulateCatch D s t e =
             Some (t', Inr (Failure (errorMessage e) reason
                          (extractFailedCallIndex (errorMessage e))))"
  using simulateCatch_returns[OF assms, where e = e and s = s and t = t] by blast

lemma simulate_cases:
  assumes "shrinking D"
  shows "(arrays s (calls s) = [] \<longrightarrow>
            simulate D s =
              Some ([], Inl (MegaFlowError ''EMPTY_BATCH''
                 ''[MegaFlow] No calls in batch. Add at least one call before executing.'')))
       \<and> (arrays s (calls s) \<noteq> [] \<longrightarrow>
            (\<exists>t r. simulate D s = Some (t, Inr r)) \<and>
            (\<forall>e. readContract (publicClient s) (routerAddress s) (callValues s) = Inl e \<longrightarrow>
               (\<exists>t reason. decodeRevertError D (errorMessage e) = Some reason \<and>
                  simulate D s =
                    Some (t, Inr (Failure (errorMessage e) reason
                                    (extractFailedCallIndex (errorMessage e)))))) \<and>
            (\<forall>v e. readContract (publicClient s) (routerAddress s) (callValues s) = Inr v \<and>
                   simulateContract (publicClient s) (simulateParams s v) = Inl e \<longrightarrow>
               (\<exists>t reason. decodeRevertError D (errorMessage e) = Some reason \<and>
                  simulate D s =
                    Some (t, Inr (Failure (errorMessage e) reason
                                    (extractFailedCallIndex (errorMessage e)))))) \<and>
            (\<forall>v x e. readContract (publicClient s) (routerAddress s) (callValues s) = Inr v \<and>
                   simulateContract (publicClient s) (simulateParams s v) = Inr x \<and>
                   estimateContractGas (publicClient s) (simulateParams s v) = Inl e \<longrightarrow>
               (\<exists>t reason. decodeRevertError D (errorMessage e) = Some reason \<and>
                  simulate D s =
                    Some (t, Inr (Failure (errorMessage e) reason
                                    (extractFailedCallIndex (errorMessage e)))))))"
proof (intro conjI impI allI)
  assume "arrays s (calls s) = []"
  then show "simulate D s =
              Some ([], Inl (MegaFlowError ''EMPTY_BATCH''
                 ''[MegaFlow] No calls in batch. Add at least one call before executing.''))"
    by (simp add: simulate_def assertCallsNotEmpty_def callValues_def)
next
  assume ne: "arrays s (calls s) \<noteq> []"
  then have a: "assertCallsNotEmpty (callValues s) = None"
    and c: "calculateRequiredETH s =
       ([ReadContract (routerAddress s) (callValues s)],
        readContract (publicClient s) (routerAddress s) (callValues s))"
    by (simp_all add: assertCallsNotEmpty_def callValues_def calculateRequiredETH_def)
  show "\<exists>t r. simulate D s = Some (t, Inr r)"
    using simulateCatch_failure[OF assms, where s = s]
    unfolding simulate_def a c
    by (simp add: Let_def split: sum.splits prod.splits) metis
next
  fix e
  assume ne: "arrays s (calls s) \<noteq> []"
    and f: "readContract (publicClient s) (routerAddress s) (callValues s) = Inl e"
  from ne have a: "assertCallsNotEmpty (callValues s) = None"
    and c: "calculateRequiredETH s =
       ([ReadContract (routerAddress s) (callValues s)],
        readContract (publicClient s) (routerAddress s) (callValues s))"
    by (simp_all add: assertCallsNotEmpty_def callValues_def calculateRequiredETH_def)
  show "\<exists>t reason. decodeRevertError D (errorMessage e) = Some reason \<and>
                  simulate D s =
                    Some (t, Inr (Failure (errorMessage e) reason
                                    (extractFailedCallIndex (errorMessage e))))"
    using simulateCatch_failure[OF assms, where s = s and e = e]
    unfolding simulate_def a c f by simp
next
  fix v e
  assume ne: "arrays s (calls s) \<noteq> []"
    and f: "readContract (publicClient s) (routerAddress s) (callValues s) = Inr v \<and>
            simulateContract (publicClient s) (simulateParams s v) = Inl e"
  from ne have a: "assertCallsNotEmpty (callValues s) = None"
    and c: "calculateRequiredETH s =
       ([ReadContract (routerAddress s) (callValues s)],
        readContract (publicClient s) (routerAddress s) (callValues s))"
    by (simp_all add: assertCallsNotEmpty_def callValues_def calculateRequiredETH_def)
  show "\<exists>t reason. decodeRevertError D (errorMessage e) = Some reason \<and>
                  simulate D s =
                    Some (t, Inr (Failure (errorMessage e) reason
                                    (extractFailedCallIndex (errorMessage e))))"
    using simulateCatch_failure[OF assms, where s = s and e = e] f
    unfolding simulate_def a c by (simp add: simulateParams_def Let_def)
next
  fix v x e
  assume ne: "arrays s (calls s) \<noteq> []"
    and f: "readContract (publicClient s) (routerAddress s) (callValues s) = Inr v \<and>
            simulateContract (publicClient s) (simulateParams s v) = Inr x \<and>
            estimateContractGas (publicClient s) (simulateParams s v) = Inl e"
  from ne have a: "assertCallsNotEmpty (callValues s) = None"
    and c: "calculateRequiredETH s =
       ([ReadContract (routerAddress s) (callValues s)],
        readContract (publicClient s) (routerAddress s) (callValues s))"
    by (simp_all add: assertCallsNotEmpty_def callValues_def calculateRequiredETH_def)
  show "\<exists>t reason. decodeRevertError D (errorMessage e) = Some reason \<and>
                  simulate D s =
                    Some (t, Inr (Failure (errorMessage e) reason
                                    (extractFailedCallIndex (errorMessage e))))"
    using simulateCatch_failure[OF assms, where s = s and e = e] f
    unfolding simulate_def a c by (simp add: simulateParams_def Let_def split: prod.splits)
qed

text \<open>
  C5. \<open>simulate\<close> raises the \<open>EMPTY_BATCH\<close> error exactly when there are no calls,
  and then it has made no external call. With calls it never raises: it returns a value, and when the
  required-value read, the dry call or the gas estimation throws \<open>e\<close>, the value is the
  failure object with the message of \<open>e\<close>, the reason \<open>decodeRevertError\<close> reads from it
  and the call index \<open>extractFailedCallIndex\<close> finds in it. (The library's decoder is
  shrinking, so that \<open>decodeRevertError\<close> returns.)
\<close>

theorem simulate_never_throws:
  assumes "shrinking D"
  shows "((\<exists>t m. simulate D s = Some (t, Inl (MegaFlowError ''EMPTY_BATCH'' m)))
           \<longleftrightarrow> arrays s (calls s) = [])
       \<and> (arrays s (calls s) = [] \<longrightarrow>
              simulate D s =
                Some ([], Inl (MegaFlowError ''EMPTY_BATCH''
                   ''[MegaFlow] No calls in batch. Add at least one call before executing.'')))
         \<and> (arrays s (calls s) \<noteq> [] \<longrightarrow>
              (\<exists>t r. simulate D s = Some (t, Inr r)) \<and>
              (\<forall>e. readContract (publicClient s) (routerAddress s) (callValues s) = Inl e \<longrightarrow>
                 (\<exists>t reason. decodeRevertError D (errorMessage e) = Some reason \<and>
                    simulate D s =
                      Some (t, Inr (Failure (errorMessage e) reason
                                      (extractFailedCallIndex (errorMessage e)))))) \<and>
              (\<forall>v e. readContract (publicClient s) (routerAddress s) (callValues s) = Inr v \<and>
                     simulateContract (publicClient s) (simulateParams s v) = Inl e \<longrightarrow>
                 (\<exists>t reason. decodeRevertError D (errorMessage e) = Some reason \<and>
                    simulate D s =
                      Some (t, Inr (Failure (errorMessage e) reason
                                      (extractFailedCallIndex (errorMessage e)))))) \<and>
              (\<forall>v x e. readContract (publicClient s) (routerAddress s) (callValues s) = Inr v \<and>
                     simulateContract (publicClient s) (simulateParams s v) = Inr x \<and>
                     estimateContractGas (publicClient s) (simulateParams s v) = Inl e \<longrightarrow>
                 (\<exists>t reason. decodeRevertError D (errorMessage e) = Some reason \<and>
                    simulate D s =
                      Some (t, Inr (Failure (errorMessage e) reason
                                      (extractFailedCallIndex (errorMessage e)))))))"
  using simulate_cases[OF assms, of s]
  by (cases "arrays s (calls s) = []") auto

lemma offline_message:
  "decodeRevertError refDecoder ''HTTP request failed'' =
     Some ''Reverted with unknown selector http reque''"
  by (subst decodeRevertError.simps)
     (simp add: toLowerCase_def toLowerCaseChar_def customErrors_def)

lemma offline_index: "extractFailedCallIndex ''HTTP request failed'' = None"
  by (simp add: extractFailedCallIndex_def matchCallAt_def toLowerCase_def toLowerCaseChar_def)

text \<open>
  The theorem on a new builder (no calls) and on a builder with one call whose client
  fails every request: the failure comes back as a value. The reason shows that the
  code hands the message, not revert bytes, to \<open>decodeRevertError\<close>.
\<close>

theorem simulate_never_throws_witness:
  "shrinking refDecoder
   \<and> simulate refDecoder (newMegaFlowBuilder defaultConfig offline emptyStore) =
       Some ([], Inl (MegaFlowError ''EMPTY_BATCH''
               ''[MegaFlow] No calls in batch. Add at least one call before executing.''))
   \<and> (\<exists>t. simulate refDecoder oneCallBuilder =
            Some (t, Inr (Failure ''HTTP request failed''
                            ''Reverted with unknown selector http reque'' None)))"
proof -
  have empty: "arrays (newMegaFlowBuilder defaultConfig offline emptyStore)
                 (calls (newMegaFlowBuilder defaultConfig offline emptyStore)) = []"
    by (simp add: newMegaFlowBuilder_def newArray_def emptyStore_def Let_def)
  have one: "arrays oneCallBuilder (calls oneCallBuilder) \<noteq> []"
    by (simp add: oneCallBuilder_eval)
  have pc: "publicClient oneCallBuilder = offline"
    by (simp add: oneCallBuilder_def add_def newMegaFlowBuilder_def heap_defs emptyStore_def
          Let_def)
  have fails: "readContract (publicClient oneCallBuilder) (routerAddress oneCallBuilder)
                 (callValues oneCallBuilder) = Inl (LibraryError ''HTTP request failed'')"
    by (simp add: pc offline_def)
  from simulate_never_throws[OF refDecoder_shrinking, of "newMegaFlowBuilder defaultConfig offline emptyStore"]
    empty
  have a: "simulate refDecoder (newMegaFlowBuilder defaultConfig offline emptyStore) =
       Some ([], Inl (MegaFlowError ''EMPTY_BATCH''
               ''[MegaFlow] No calls in batch. Add at least one call before executing.''))"
    by simp
  from simulate_never_throws[OF refDecoder_shrinking, of oneCallBuilder] one fails
  have "\<exists>t reason. decodeRevertError refDecoder (errorMessage (LibraryError ''HTTP request failed''))
            = Some reason \<and>
          simulate refDecoder oneCallBuilder =
            Some (t, Inr (Failure (errorMessage (LibraryError ''HTTP request failed'')) reason
                            (extractFailedCallIndex
                               (errorMessage (LibraryError ''HTTP request failed'')))))"
    by blast
  then have b: "\<exists>t. simulate refDecoder oneCallBuilder =
            Some (t, Inr (Failure ''HTTP request failed''
                            ''Reverted with unknown selector http reque'' None))"
    by (auto simp: offline_message offline_index)
  from a b refDecoder_shrinking show ?thesis by simp
qed
section \<open>executeSync and executeRealtime\<close>

text \<open>
  C7. When the chain answers the two method names alike, the two methods return the same
  result (the same exception from the same precondition check or the same failing step,
  or the same \<open>receipt, results, gasUsed, executionTimeMs\<close>), and they make the same
  calls to the chain client and the wallet, with the same arguments and in the same
  order (the value read, the simulation, the signature, the request, the clock reads),
  but for the method name of the request. The console lines of \<open>this.log\<close>, which are
  written only when the builder's \<open>debug\<close> flag is set, are diagnostics and not a step of
  the execution: they are left out of the comparison, and with \<open>debug\<close> off (the
  default) the two traces are equal up to the method name as they are.
\<close>

theorem executeRealtime_matches_executeSync:
  assumes "\<forall>ps. request (publicClient s) ''realtime_sendRawTransaction'' ps =
                request (publicClient s) ''eth_sendRawTransactionSync'' ps"
  shows "snd (executeRealtime D E options s) = snd (executeSync D E options s)
       \<and> fst (executeRealtime D E options s) =
           map renameMethod (filter (\<lambda>x. \<not> isConsoleLog x) (fst (executeSync D E options s)))
       \<and> (\<not> debug s \<longrightarrow>
            fst (executeRealtime D E options s) =
              map renameMethod (fst (executeSync D E options s)))"
proof -
  have r: "\<And>x. request (publicClient s) ''realtime_sendRawTransaction'' [x] =
                request (publicClient s) ''eth_sendRawTransactionSync'' [x]"
    using assms by blast
  obtain t1 r1 where c: "calculateRequiredETH s = (t1, r1)"
    by (cases "calculateRequiredETH s")
  then have t1: "map renameMethod t1 = t1" "filter (\<lambda>x. \<not> isConsoleLog x) t1 = t1"
    by (auto simp: calculateRequiredETH_def split: if_splits)
  show ?thesis
    by (simp add: executeSync_def executeRealtime_def log_def Let_def r c t1
           split: option.split sum.split prod.split)
qed

lemma debugBuilder_eval:
  "calls debugBuilder = 0" "arrays debugBuilder 0 = [2]"
  "callObjs debugBuilder 2 =
     \<lparr>target = ''0x1111111111111111111111111111111111111111'', value = 100, callData = ''0x00''\<rparr>"
  "debug debugBuilder" "walletClient debugBuilder = Some testWallet"
  "publicClient debugBuilder = devnet" "routerAddress debugBuilder = MAINNET_ROUTER_ADDRESS"
  "performanceNow debugBuilder = (\<lambda>k. 10 * int k)"
  by (simp_all add: debugBuilder_def connect_def add_def newMegaFlowBuilder_def heap_defs
        emptyStore_def Let_def)

text \<open>
  The console lines that the comparison leaves out, on a run that succeeds with \<open>debug\<close>
  set: \<open>executeSync\<close> announces the batch and its completion, \<open>executeRealtime\<close> is
  silent.
\<close>

lemma executeSync_console_lines:
  "filter isConsoleLog (fst (executeSync refDecoder noEvents noOptions debugBuilder)) =
     [ConsoleLog ''[MegaFlow] Executing batch (sync)'',
      ConsoleLog ''[MegaFlow] Sync execution completed'']
   \<and> filter isConsoleLog (fst (executeRealtime refDecoder noEvents noOptions debugBuilder)) = []"
  by (simp add: executeSync_def executeRealtime_def log_def Let_def calculateRequiredETH_def
        callValues_def debugBuilder_eval assertCallsNotEmpty_def assertWalletConnected_def
        assertAccount_def testWallet_def devnet_def noOptions_def)

text \<open>The theorem on a connected builder with one call, on a chain that answers.\<close>

theorem executeRealtime_matches_executeSync_witness:
  "(\<forall>ps. request (publicClient debugBuilder) ''realtime_sendRawTransaction'' ps =
          request (publicClient debugBuilder) ''eth_sendRawTransactionSync'' ps)
   \<and> snd (executeSync refDecoder noEvents noOptions debugBuilder) =
       Inr \<lparr>receipt = \<lparr>logs = [], status = ''success'', gasUsed = 90000,
                        effectiveGasPrice = 1000000, blockNumber = 7,
                        transactionHash = ''0xabc1''\<rparr>,
            results = [\<lparr>success = True, returnData = ''0x''\<rparr>],
            gasUsed = 90000, executionTimeMs = 10\<rparr>
   \<and> snd (executeRealtime refDecoder noEvents noOptions debugBuilder) =
       Inr \<lparr>receipt = \<lparr>logs = [], status = ''success'', gasUsed = 90000,
                        effectiveGasPrice = 1000000, blockNumber = 7,
                        transactionHash = ''0xabc1''\<rparr>,
            results = [\<lparr>success = True, returnData = ''0x''\<rparr>],
            gasUsed = 90000, executionTimeMs = 10\<rparr>"
proof -
  have h: "\<forall>ps. request (publicClient debugBuilder) ''realtime_sendRawTransaction'' ps =
          request (publicClient debugBuilder) ''eth_sendRawTransactionSync'' ps"
    by (simp add: debugBuilder_eval devnet_def)
  have e: "snd (executeSync refDecoder noEvents noOptions debugBuilder) =
       Inr \<lparr>receipt = \<lparr>logs = [], status = ''success'', gasUsed = 90000,
                        effectiveGasPrice = 1000000, blockNumber = 7,
                        transactionHash = ''0xabc1''\<rparr>,
            results = [\<lparr>success = True, returnData = ''0x''\<rparr>],
            gasUsed = 90000, executionTimeMs = 10\<rparr>"
    by (simp add: executeSync_def log_def Let_def calculateRequiredETH_def
        callValues_def debugBuilder_eval assertCallsNotEmpty_def assertWalletConnected_def
        assertAccount_def testWallet_def devnet_def noOptions_def parseCallResults_def
        decodeReturnValue_def scanCallExecuted_def)
  from executeRealtime_matches_executeSync[OF h, of refDecoder noEvents noOptions] h e
  show ?thesis by simp
qed

section \<open>Nonce sequencing\<close>

text \<open>
  The addition of doubles is exact on the safe integers: \<open>bitLength n \<le> k\<close> says
  \<open>n < 2^k\<close>, so \<open>toNumber\<close> keeps every \<open>n\<close> up to \<open>2^53\<close>.
\<close>

lemma bitLength_le: "bitLength n \<le> k \<longleftrightarrow> n < 2 ^ k"
proof (induction n arbitrary: k rule: bitLength.induct)
  case (1 n)
  show ?case
  proof (cases "n = 0")
    case True
    then show ?thesis by (subst bitLength.simps) simp
  next
    case False
    show ?thesis
    proof (cases k)
      case 0
      with False show ?thesis by (subst bitLength.simps) simp
    next
      case (Suc j)
      have "bitLength n \<le> Suc j \<longleftrightarrow> bitLength (n div 2) \<le> j"
        using False by (subst bitLength.simps) simp
      also have "\<dots> \<longleftrightarrow> n div 2 < 2 ^ j" using 1[OF False] .
      also have "\<dots> \<longleftrightarrow> n < 2 ^ Suc j" by auto
      finally show ?thesis using Suc by simp
    qed
  qed
qed

lemma toNumber_exact: "n \<le> 2 ^ 53 \<Longrightarrow> toNumber n = n"
proof (cases "n < 2 ^ 53")
  case True
  then show ?thesis by (simp add: toNumber_def bitLength_le)
next
  case False
  assume "n \<le> 2 ^ 53"
  with False have n: "n = 2 ^ 53" by simp
  have "bitLength n \<le> 54" "\<not> bitLength n \<le> 53"
    by (simp_all add: bitLength_le n)
  then have b: "bitLength n = 54" by simp
  show ?thesis by (simp add: toNumber_def b Let_def) (simp add: n)
qed

lemma numberAdd_exact: "\<bar>x + y\<bar> \<le> 2 ^ 53 \<Longrightarrow> numberAdd x y = x + y"
proof -
  assume a: "\<bar>x + y\<bar> \<le> 2 ^ 53"
  have "nat \<bar>x + y\<bar> \<le> 2 ^ 53"
    using a by (simp add: nat_le_iff)
  then have "toNumber (nat \<bar>x + y\<bar>) = nat \<bar>x + y\<bar>" by (rule toNumber_exact)
  then show ?thesis
    by (auto simp add: numberAdd_def abs_if split: if_splits)
qed

lemma numberAdd_rounds: "numberAdd 9007199254740992 1 = 9007199254740992"
proof -
  have "bitLength 9007199254740993 \<le> 54" "\<not> bitLength 9007199254740993 \<le> 53"
    by (simp_all add: bitLength_le)
  then have b: "bitLength 9007199254740993 = 54" by simp
  have "toNumber 9007199254740993 = 9007199254740992"
    by (simp add: toNumber_def b Let_def)
  then show ?thesis
    by (simp add: numberAdd_def)
qed

lemma getNextNonce_fst:
  "fst (getNextNonce a n c) =
     max n (numberAdd (case c (toLowerCase a) of Some l \<Rightarrow> l | None \<Rightarrow> - 1) 1)"
  by (simp add: getNextNonce_def Let_def)

lemma getNextNonce_snd:
  "snd (getNextNonce a n c) = c(toLowerCase a \<mapsto> fst (getNextNonce a n c))"
  by (simp add: getNextNonce_def Let_def)

lemma resetNonce_forgets:
  "fst (getNextNonce a n (resetNonce a c)) = max n 0"
  by (simp add: getNextNonce_fst resetNonce_def numberAdd_exact)

text \<open>
  C6. Nonces are transaction counts held in JavaScript numbers, and the code adds 1 to
  the last one as a number; the statement is about the nonces that a number counts
  exactly, the safe integers (below \<open>2^53\<close> in absolute value). When the pending nonce
  \<open>n1\<close> that the network reports first is one, and so is one more than the nonce the
  cache holds (if it holds one), two successive \<open>getNextNonce\<close> calls for one address,
  with nothing evicting the entry in between, return strictly increasing nonces,
  whatever pending nonce \<open>n2\<close> the network reports the second time (the same, a smaller
  one, any). Each issued nonce is the maximum of the network's pending nonce and one
  more than the last issued one (\<open>- 1\<close> when the cache has no entry), and it is what the
  cache holds for the address afterwards.
\<close>

theorem getNextNonce_strictly_increasing:
  assumes "\<bar>n1\<bar> < 2 ^ 53"
    and "\<forall>l. c (toLowerCase a) = Some l \<longrightarrow> \<bar>l + 1\<bar> < 2 ^ 53"
  shows "fst (getNextNonce a n1 c) < fst (getNextNonce a n2 (snd (getNextNonce a n1 c)))
   \<and> fst (getNextNonce a n1 c) =
       max n1 ((case c (toLowerCase a) of Some l \<Rightarrow> l | None \<Rightarrow> - 1) + 1)
   \<and> snd (getNextNonce a n1 c) (toLowerCase a) = Some (fst (getNextNonce a n1 c))
   \<and> fst (getNextNonce a n2 (snd (getNextNonce a n1 c))) =
       max n2 (fst (getNextNonce a n1 c) + 1)
   \<and> snd (getNextNonce a n2 (snd (getNextNonce a n1 c))) (toLowerCase a) =
       Some (fst (getNextNonce a n2 (snd (getNextNonce a n1 c))))"
proof -
  let ?last = "case c (toLowerCase a) of Some l \<Rightarrow> l | None \<Rightarrow> - 1"
  have last: "\<bar>?last + 1\<bar> < 2 ^ 53"
    using assms(2) by (cases "c (toLowerCase a)") simp_all
  then have first: "fst (getNextNonce a n1 c) = max n1 (?last + 1)"
    by (simp add: getNextNonce_fst numberAdd_exact)
  have "\<bar>fst (getNextNonce a n1 c)\<bar> < 2 ^ 53"
    unfolding first using assms(1) last by (simp add: max_def)
  then have "\<bar>fst (getNextNonce a n1 c) + 1\<bar> \<le> 2 ^ 53" by simp
  then have step: "numberAdd (fst (getNextNonce a n1 c)) 1 = fst (getNextNonce a n1 c) + 1"
    by (rule numberAdd_exact)
  have second: "fst (getNextNonce a n2 (snd (getNextNonce a n1 c))) =
       max n2 (fst (getNextNonce a n1 c) + 1)"
    by (simp add: getNextNonce_fst[of a n2] getNextNonce_snd step)
  have "fst (getNextNonce a n1 c) < max n2 (fst (getNextNonce a n1 c) + 1)"
    by simp
  with first second show ?thesis
    by (simp only: getNextNonce_snd fun_upd_same simp_thms)
qed

text \<open>
  The theorem on a cache that holds the nonce 7 for the address, written in another
  case: the network reports 5 twice, and the nonces issued are 8 and 9; when it reports
  3 the second time, the second nonce is 9 as well.
\<close>

theorem getNextNonce_strictly_increasing_witness:
  "\<bar>5 :: int\<bar> < 2 ^ 53
   \<and> [''0xabc1'' \<mapsto> 7 :: int] (toLowerCase ''0xABC1'') = Some 7
   \<and> \<bar>(7 :: int) + 1\<bar> < 2 ^ 53
   \<and> fst (getNextNonce ''0xABC1'' 5 [''0xabc1'' \<mapsto> 7]) = 8
   \<and> fst (getNextNonce ''0xABC1'' 5 (snd (getNextNonce ''0xABC1'' 5 [''0xabc1'' \<mapsto> 7]))) = 9
   \<and> fst (getNextNonce ''0xABC1'' 3 (snd (getNextNonce ''0xABC1'' 5 [''0xabc1'' \<mapsto> 7]))) = 9"
proof -
  have key: "toLowerCase ''0xABC1'' = ''0xabc1''"
    by (simp add: toLowerCase_def toLowerCaseChar_def)
  have h1: "\<bar>5 :: int\<bar> < 2 ^ 53" by simp
  have h2: "\<forall>l. [''0xabc1'' \<mapsto> 7 :: int] (toLowerCase ''0xABC1'') = Some l \<longrightarrow> \<bar>l + 1\<bar> < 2 ^ 53"
    by (simp add: key)
  show ?thesis
    using
      getNextNonce_strictly_increasing[of 5 "[''0xabc1'' \<mapsto> 7]" "''0xABC1''" 5, OF h1 h2]
      getNextNonce_strictly_increasing[of 5 "[''0xabc1'' \<mapsto> 7]" "''0xABC1''" 3, OF h1 h2]
    by (simp add: key)
qed

text \<open>
  Beyond the safe integers the model rounds as the code does: on a network that reports
  the pending nonce \<open>2^53\<close> twice, the second sum \<^verbatim>\<open>lastUsed + 1\<close> is \<open>2^53\<close> again.
\<close>

lemma getNextNonce_rounds_beyond_safe_integers:
  "fst (getNextNonce ''0xABC1'' 9007199254740992 Map.empty) = 9007199254740992
   \<and> fst (getNextNonce ''0xABC1'' 9007199254740992
            (snd (getNextNonce ''0xABC1'' 9007199254740992 Map.empty))) = 9007199254740992"
  by (simp add: getNextNonce_fst getNextNonce_snd numberAdd_exact numberAdd_rounds)

end
